theory Spec2Isabelle
  imports Complex_Main "HOL-Library.Sublist"
begin

section \<open>JavaScript values used by the frontend\<close>

text \<open>
  Strings are lists of characters with codes below 256. String literals of the source
  that contain emoji or accented letters are written here without them; no property
  below depends on the text of a message, only on whether a message was set.
  A JavaScript \<open>number\<close> is an \<open>int\<close> where the code only ever stores integers
  (page numbers, lengths) and a \<open>rat\<close> where it divides (prices, the progress bar).
\<close>

definition es_blanco_js :: "char \<Rightarrow> bool" where
  \<comment> \<open>the code units below 256 that \<open>String.prototype.trim\<close> removes\<close>
  "es_blanco_js c =
     (let n = (of_char c :: nat) in (9 \<le> n \<and> n \<le> 13) \<or> n = 32 \<or> n = 160)"

definition trim_js :: "string \<Rightarrow> string" where
  "trim_js s = rev (dropWhile es_blanco_js (rev (dropWhile es_blanco_js s)))"

definition toLowerCase_char :: "char \<Rightarrow> char" where
  \<comment> \<open>A-Z and the Latin-1 capitals (all of 192..222 but the multiplication sign)\<close>
  "toLowerCase_char c =
     (let n = (of_char c :: nat) in
      if (65 \<le> n \<and> n \<le> 90) \<or> (192 \<le> n \<and> n \<le> 222 \<and> n \<noteq> 215)
      then char_of (n + 32) else c)"

definition toLowerCase :: "string \<Rightarrow> string" where
  "toLowerCase s = map toLowerCase_char s"

fun includes_js :: "string \<Rightarrow> string \<Rightarrow> bool" where
  \<comment> \<open>\<open>s.includes(t)\<close>: t occurs in s at some position\<close>
  "includes_js [] t = (t = [])"
| "includes_js (c # cs) t = (prefix t (c # cs) \<or> includes_js cs t)"

fun split_js :: "char \<Rightarrow> string \<Rightarrow> string list" where
  \<comment> \<open>\<open>s.split(sep)\<close> for a one-character separator: never an empty array\<close>
  "split_js sep [] = [[]]"
| "split_js sep (c # cs) =
     (if c = sep then [] # split_js sep cs
      else (case split_js sep cs of
              [] \<Rightarrow> [[c]]
            | w # ws \<Rightarrow> (c # w) # ws))"

definition pop_js :: "'a list \<Rightarrow> 'a option" where
  \<comment> \<open>the value of \<open>xs.pop()\<close>: the last element, undefined on an empty array\<close>
  "pop_js xs = (case rev xs of [] \<Rightarrow> None | x # _ \<Rightarrow> Some x)"

fun join_js :: "string \<Rightarrow> string list \<Rightarrow> string" where
  \<comment> \<open>\<open>xs.join(sep)\<close> on an array of strings\<close>
  "join_js sep [] = []"
| "join_js sep [x] = x"
| "join_js sep (x # y # ys) = x @ sep @ join_js sep (y # ys)"

fun toString_nat :: "nat \<Rightarrow> string" where
  \<comment> \<open>a non-negative whole number as a template literal prints it\<close>
  "toString_nat n =
     (if n < 10 then [char_of (48 + n)]
      else toString_nat (n div 10) @ [char_of (48 + n mod 10)])"

declare toString_nat.simps [simp del]

definition slice_js :: "int \<Rightarrow> int \<Rightarrow> 'a list \<Rightarrow> 'a list" where
  \<comment> \<open>\<open>xs.slice(start, end)\<close>: negative indices count from the end, all are clamped\<close>
  "slice_js start fin xs =
     (let len = int (length xs);
          k = (if start < 0 then max (len + start) 0 else min start len);
          final = (if fin < 0 then max (len + fin) 0 else min fin len)
      in take (nat (final - k)) (drop (nat k) xs))"

definition ceil_div_js :: "int \<Rightarrow> int \<Rightarrow> int" where
  \<comment> \<open>\<open>Math.ceil(a / b)\<close> on integers; the quotient is exact in the rationals.
      For \<open>b = 0\<close> JavaScript gives Infinity or NaN, this gives 0: callers below
      are stated for a non-zero divisor.\<close>
  "ceil_div_js a b = \<lceil>(of_int a :: rat) / of_int b\<rceil>"

section \<open>The service interfaces (producto.service.ts)\<close>

record Producto =
  id_producto :: "int option"
  codigo :: string
  nombre :: string
  descripcion :: "string option"
  cantidad :: rat
  precio :: rat
  categoria :: "string option"

section \<open>ProductoListComponent\<close>

record ProductoListComponent =
  productos :: "Producto list"
  productoForm :: Producto
  editando :: bool
  errores :: "string list"
  cargando_lista :: bool
  paginaActual :: int
  productosPorPagina :: int
  totalPaginas :: int
  terminoBusqueda :: string
  productosFiltrados :: "Producto list"

definition nuevoProducto :: Producto where
  "nuevoProducto =
     \<lparr>id_producto = None, codigo = [], nombre = [], descripcion = Some [],
      cantidad = 0, precio = 0, categoria = Some []\<rparr>"

definition estado_inicial :: ProductoListComponent where
  \<comment> \<open>the field initialisers of the class\<close>
  "estado_inicial =
     \<lparr>productos = [], productoForm = nuevoProducto, editando = False, errores = [],
      cargando_lista = False, paginaActual = 1, productosPorPagina = 5, totalPaginas = 0,
      terminoBusqueda = [], productosFiltrados = []\<rparr>"

definition calcularTotalPaginas :: "ProductoListComponent \<Rightarrow> ProductoListComponent" where
  "calcularTotalPaginas s =
     (let s1 = s\<lparr>totalPaginas :=
                  ceil_div_js (int (length (productosFiltrados s))) (productosPorPagina s)\<rparr>
      in if paginaActual s1 > totalPaginas s1 \<and> totalPaginas s1 > 0
         then s1\<lparr>paginaActual := totalPaginas s1\<rparr>
         else s1)"

definition obtenerProductosPaginados :: "ProductoListComponent \<Rightarrow> Producto list" where
  "obtenerProductosPaginados s =
     (let inicio = (paginaActual s - 1) * productosPorPagina s;
          fin = inicio + productosPorPagina s
      in slice_js inicio fin (productosFiltrados s))"

definition cambiarPagina :: "int \<Rightarrow> ProductoListComponent \<Rightarrow> ProductoListComponent" where
  \<comment> \<open>the scroll to the top of the window is not part of the component state\<close>
  "cambiarPagina nuevaPagina s =
     (if nuevaPagina \<ge> 1 \<and> nuevaPagina \<le> totalPaginas s
      then s\<lparr>paginaActual := nuevaPagina\<rparr>
      else s)"

definition coincide :: "string \<Rightarrow> Producto \<Rightarrow> bool" where
  \<comment> \<open>the callback given to \<open>filter\<close>; an absent or empty optional field is falsy\<close>
  "coincide termino producto =
     (includes_js (toLowerCase (codigo producto)) termino \<or>
      includes_js (toLowerCase (nombre producto)) termino \<or>
      (case descripcion producto of
         None \<Rightarrow> False
       | Some d \<Rightarrow> d \<noteq> [] \<and> includes_js (toLowerCase d) termino) \<or>
      (case categoria producto of
         None \<Rightarrow> False
       | Some c \<Rightarrow> c \<noteq> [] \<and> includes_js (toLowerCase c) termino))"

definition aplicarFiltros :: "ProductoListComponent \<Rightarrow> ProductoListComponent" where
  "aplicarFiltros s =
     (let s1 =
        (if terminoBusqueda s = [] \<or> trim_js (terminoBusqueda s) = []
         then s\<lparr>productosFiltrados := productos s\<rparr>
         else
           (let termino = trim_js (toLowerCase (terminoBusqueda s))
            in s\<lparr>productosFiltrados := filter (coincide termino) (productos s)\<rparr>))
      in calcularTotalPaginas (s1\<lparr>paginaActual := 1\<rparr>))"

definition buscar :: "ProductoListComponent \<Rightarrow> ProductoListComponent" where
  "buscar s = aplicarFiltros s"

definition limpiarBusqueda :: "ProductoListComponent \<Rightarrow> ProductoListComponent" where
  "limpiarBusqueda s = aplicarFiltros (s\<lparr>terminoBusqueda := []\<rparr>)"

definition cargarProductos_next ::
  "Producto list \<Rightarrow> ProductoListComponent \<Rightarrow> ProductoListComponent" where
  \<comment> \<open>the \<open>next\<close> callback of \<open>cargarProductos\<close>, run when the product list arrives\<close>
  "cargarProductos_next data s =
     (aplicarFiltros (s\<lparr>productos := data\<rparr>))\<lparr>cargando_lista := False\<rparr>"

text \<open>What changes the page state: the five methods, the arrival of the product list
  and an assignment to the public field \<open>terminoBusqueda\<close> from the search box.\<close>

datatype operacion =
    AplicarFiltros
  | Buscar
  | LimpiarBusqueda
  | CambiarPagina int
  | CalcularTotalPaginas
  | ProductosRecibidos "Producto list"
  | EscribirTermino string

fun ejecutar :: "operacion \<Rightarrow> ProductoListComponent \<Rightarrow> ProductoListComponent" where
  "ejecutar AplicarFiltros s = aplicarFiltros s"
| "ejecutar Buscar s = buscar s"
| "ejecutar LimpiarBusqueda s = limpiarBusqueda s"
| "ejecutar (CambiarPagina n) s = cambiarPagina n s"
| "ejecutar CalcularTotalPaginas s = calcularTotalPaginas s"
| "ejecutar (ProductosRecibidos data) s = cargarProductos_next data s"
| "ejecutar (EscribirTermino t) s = s\<lparr>terminoBusqueda := t\<rparr>"

fun ejecutar_todas :: "operacion list \<Rightarrow> ProductoListComponent \<Rightarrow> ProductoListComponent" where
  "ejecutar_todas [] s = s"
| "ejecutar_todas (op # ops) s = ejecutar_todas ops (ejecutar op s)"

datatype peticion_producto =
    CrearProducto Producto
  | ActualizarProducto int Producto

definition guardarProducto ::
  "ProductoListComponent \<Rightarrow> ProductoListComponent \<times> peticion_producto option" where
  \<comment> \<open>the new state and the HTTP request handed to the service, if one is issued\<close>
  "guardarProducto s0 =
     (let s = s0\<lparr>errores := []\<rparr>; f = productoForm s in
      if codigo f = [] \<or> trim_js (codigo f) = []
      then (s\<lparr>errores := errores s @ [''El codigo es obligatorio'']\<rparr>, None)
      else if nombre f = [] \<or> trim_js (nombre f) = []
      then (s\<lparr>errores := errores s @ [''El nombre es obligatorio'']\<rparr>, None)
      else if precio f = 0 \<or> precio f \<le> 0
      then (s\<lparr>errores := errores s @ [''El precio debe ser mayor a 0'']\<rparr>, None)
      else if cantidad f < 0
      then (s\<lparr>errores := errores s @ [''La cantidad no puede ser negativa'']\<rparr>, None)
      else
        (let s' = s\<lparr>cargando_lista := True\<rparr> in
         case id_producto f of
           Some productoId \<Rightarrow>
             if editando s' \<and> productoId \<noteq> 0
             then (s', Some (ActualizarProducto productoId f))
             else (s', Some (CrearProducto f))
         | None \<Rightarrow> (s', Some (CrearProducto f))))"

definition invariante_pagina :: "ProductoListComponent \<Rightarrow> bool" where
  \<comment> \<open>the page number is at least 1 and, when there are pages, at most their number\<close>
  "invariante_pagina s =
     (paginaActual s \<ge> 1 \<and> (totalPaginas s \<ge> 1 \<longrightarrow> paginaActual s \<le> totalPaginas s))"

definition solo_blancos :: "string \<Rightarrow> bool" where
  \<comment> \<open>empty, or nothing but white space\<close>
  "solo_blancos s = (\<forall>c \<in> set s. es_blanco_js c)"

definition contiene :: "string \<Rightarrow> string \<Rightarrow> bool" where
  \<comment> \<open>the field, lowercased, has the term as a contiguous part\<close>
  "contiene campo t = sublist t (toLowerCase campo)"

definition producto_ejemplo :: "string \<Rightarrow> string \<Rightarrow> rat \<Rightarrow> Producto" where
  "producto_ejemplo c n p =
     \<lparr>id_producto = None, codigo = c, nombre = n, descripcion = None,
      cantidad = 3, precio = p, categoria = Some ''Accesorios''\<rparr>"

definition siete_productos :: "Producto list" where
  "siete_productos =
     [producto_ejemplo ''P1'' ''Mouse'' 10, producto_ejemplo ''P2'' ''Teclado'' 20,
      producto_ejemplo ''P3'' ''Monitor'' 30, producto_ejemplo ''P4'' ''Webcam'' 40,
      producto_ejemplo ''P5'' ''Laptop'' 50, producto_ejemplo ''P6'' ''Cable'' 60,
      producto_ejemplo ''P7'' ''Base'' 70]"

section \<open>CargaExcelComponent\<close>

record File =
  file_name :: string
  file_size :: nat

record ValidacionExcel =
  valido :: bool
  mensaje_validacion :: string
  errores_validacion :: "string list"
  total_filas :: int
  datos_previos :: "Producto list"
  advertencias :: "string list option"

record ResultadoCarga =
  success :: bool
  mensaje_resultado :: string
  productos_creados :: int
  productos_actualizados :: int
  errores_resultado :: "string list"
  total_procesados :: int

text \<open>
  The component state. \<open>websocket\<close> records whether a socket handle is stored;
  \<open>intervaloSimulacion\<close> is the running interval, kept with the increment that its
  callback captured when \<open>simularProgresoGradual\<close> created it.
\<close>

record CargaExcelComponent =
  archivoSeleccionado :: "File option"
  nombreArchivo :: string
  validacion :: "ValidacionExcel option"
  resultado :: "ResultadoCarga option"
  validando :: bool
  cargando :: bool
  mostrarVistaPrevia :: bool
  mensajeError :: string
  mensajeExito :: string
  mensajeAdvertencia :: string
  progreso :: rat
  progresoMensaje :: string
  websocket :: bool
  intervaloSimulacion :: "rat option"

text \<open>What a method asks of its environment: calls of the injected service, timers,
  the socket and the browser's alert box.\<close>

datatype efecto =
    LlamarValidarExcel File
  | LlamarCargarExcel File
  | Temporizador nat
  | Intervalo nat
  | AbrirWebSocket
  | Alerta string

definition limpiarMensajes :: "CargaExcelComponent \<Rightarrow> CargaExcelComponent" where
  "limpiarMensajes s = s\<lparr>mensajeError := [], mensajeExito := [], mensajeAdvertencia := []\<rparr>"

definition MAX_SIZE :: nat where
  "MAX_SIZE = 10 * 1024 * 1024"

definition validarArchivo :: "CargaExcelComponent \<Rightarrow> CargaExcelComponent \<times> efecto list" where
  "validarArchivo s =
     (case archivoSeleccionado s of
        None \<Rightarrow> (s\<lparr>mensajeAdvertencia := ''Por favor selecciona un archivo''\<rparr>, [])
      | Some f \<Rightarrow>
          ((limpiarMensajes (s\<lparr>validando := True\<rparr>))\<lparr>validacion := None\<rparr>,
           [LlamarValidarExcel f]))"

definition validarArchivo_next ::
  "ValidacionExcel \<Rightarrow> CargaExcelComponent \<Rightarrow> CargaExcelComponent" where
  \<comment> \<open>the \<open>next\<close> callback of \<open>validarArchivo\<close>, run when a validation response arrives\<close>
  "validarArchivo_next v s0 =
     (let s = s0\<lparr>validacion := Some v, validando := False\<rparr> in
      if valido v
      then
        (let s1 = s\<lparr>mensajeExito := mensaje_validacion v,
                     mostrarVistaPrevia := (length (datos_previos v) > 0)\<rparr>
         in case advertencias v of
              None \<Rightarrow> s1
            | Some avisos \<Rightarrow>
                if length avisos > 0
                then s1\<lparr>mensajeAdvertencia := join_js '', '' avisos\<rparr>
                else s1)
      else
        (let s1 = s\<lparr>mensajeError := mensaje_validacion v\<rparr> in
         if length (errores_validacion v) > 0
         then
           (let erroresTexto = join_js ''; '' (take 3 (errores_validacion v));
                s2 = s1\<lparr>mensajeError := mensajeError s1 @ '' - '' @ erroresTexto\<rparr>
            in if length (errores_validacion v) > 3
               then s2\<lparr>mensajeError :=
                        mensajeError s2 @ '' (y '' @
                        toString_nat (length (errores_validacion v) - 3) @ '' errores mas)''\<rparr>
               else s2)
         else s1))"

definition onFileSelected ::
  "File option \<Rightarrow> CargaExcelComponent \<Rightarrow> CargaExcelComponent \<times> efecto list" where
  \<comment> \<open>the argument is \<open>event.target?.files?.[0]\<close>\<close>
  "onFileSelected file s0 =
     (let s = limpiarMensajes s0 in
      case file of
        None \<Rightarrow> (s\<lparr>mensajeAdvertencia := ''No se selecciono ningun archivo''\<rparr>, [])
      | Some f \<Rightarrow>
          if file_size f > MAX_SIZE
          then (s\<lparr>mensajeError := ''El archivo excede el tamano maximo de 10 MB'',
                   archivoSeleccionado := None, nombreArchivo := []\<rparr>, [])
          else
            (let extension = map_option toLowerCase (pop_js (split_js (CHR ''.'') (file_name f)))
             in if (case extension of None \<Rightarrow> [] | Some e \<Rightarrow> e) \<notin> set [''xlsx'', ''xls'']
                then (s\<lparr>mensajeError := ''Solo se permiten archivos Excel (.xlsx o .xls)'',
                         archivoSeleccionado := None, nombreArchivo := []\<rparr>, [])
                else validarArchivo
                       (s\<lparr>archivoSeleccionado := Some f, nombreArchivo := file_name f,
                          validacion := None, resultado := None,
                          mostrarVistaPrevia := False\<rparr>)))"

definition validacion_valida :: "CargaExcelComponent \<Rightarrow> bool" where
  \<comment> \<open>\<open>this.validacion?.valido\<close> as a condition: false when there is no validation\<close>
  "validacion_valida s = (case validacion s of None \<Rightarrow> False | Some v \<Rightarrow> valido v)"

definition cargarArchivo ::
  "bool \<Rightarrow> CargaExcelComponent \<Rightarrow> CargaExcelComponent \<times> efecto list" where
  \<comment> \<open>\<open>confirmar\<close> is the user's answer to the confirm dialog, asked only once both
      guards have passed\<close>
  "cargarArchivo confirmar s =
     (case archivoSeleccionado s of
        None \<Rightarrow> (s\<lparr>mensajeAdvertencia := ''Por favor selecciona un archivo''\<rparr>, [])
      | Some f \<Rightarrow>
          if \<not> validacion_valida s
          then (s\<lparr>mensajeAdvertencia := ''Primero valida el archivo''\<rparr>, [])
          else if \<not> confirmar then (s, [])
          else ((limpiarMensajes (s\<lparr>cargando := True, progreso := 0\<rparr>))\<lparr>resultado := None\<rparr>,
                [Temporizador 100]))"

definition incrementoPorCiclo :: "CargaExcelComponent \<Rightarrow> rat" where
  "incrementoPorCiclo s =
     (let totalFilas =
        (case validacion s of
           None \<Rightarrow> 10
         | Some v \<Rightarrow> if total_filas v = 0 then 10 else total_filas v);
          tiempoEstimado = max 8000 (min (totalFilas * 200) 30000);
          intervaloTiempo = 200
      in 80 / (of_int tiempoEstimado / of_int intervaloTiempo))"

definition simularProgresoGradual ::
  "CargaExcelComponent \<Rightarrow> CargaExcelComponent \<times> efecto list" where
  "simularProgresoGradual s =
     (s\<lparr>progreso := 0, progresoMensaje := ''Iniciando carga...'',
        intervaloSimulacion := Some (incrementoPorCiclo s)\<rparr>,
      [Intervalo 200])"

definition tick_simulacion :: "rat \<Rightarrow> CargaExcelComponent \<Rightarrow> CargaExcelComponent" where
  \<comment> \<open>one run of the callback given to \<open>setInterval\<close>\<close>
  "tick_simulacion inc s =
     (if progreso s < 80
      then
        (let p = progreso s + inc;
             m = (if p < 20 then ''Preparando datos...''
                  else if p < 40 then ''Validando productos...''
                  else if p < 60 then ''Insertando en base de datos...''
                  else if p < 80 then ''Actualizando registros...''
                  else progresoMensaje s)
         in s\<lparr>progresoMensaje := m, progreso := of_int \<lfloor>p\<rfloor>\<rparr>)
      else s\<lparr>progreso := 85, progresoMensaje := ''Completando proceso...''\<rparr>)"

definition ticks :: "nat \<Rightarrow> CargaExcelComponent \<Rightarrow> CargaExcelComponent" where
  \<comment> \<open>the interval fires n times while it is running\<close>
  "ticks n s =
     (case intervaloSimulacion s of
        None \<Rightarrow> s
      | Some inc \<Rightarrow> (tick_simulacion inc ^^ n) s)"

definition conectarWebSocket ::
  "CargaExcelComponent \<Rightarrow> CargaExcelComponent \<times> efecto list" where
  \<comment> \<open>the socket is created and stored; its handlers run on later events\<close>
  "conectarWebSocket s = (s\<lparr>websocket := True\<rparr>, [AbrirWebSocket])"

definition ejecutarCarga :: "CargaExcelComponent \<Rightarrow> CargaExcelComponent \<times> efecto list" where
  "ejecutarCarga s =
     (case archivoSeleccionado s of
        None \<Rightarrow> (s, [])
      | Some f \<Rightarrow> (s, [LlamarCargarExcel f]))"

definition ejecutarCarga_next ::
  "ResultadoCarga \<Rightarrow> CargaExcelComponent \<Rightarrow> CargaExcelComponent \<times> efecto list" where
  \<comment> \<open>the \<open>next\<close> callback of the upload, up to the timer it starts\<close>
  "ejecutarCarga_next res s =
     (s\<lparr>progreso := 100, progresoMensaje := ''Carga completada!''\<rparr>, [Temporizador 2000])"

definition cargarArchivo_diferido ::
  "CargaExcelComponent \<Rightarrow> CargaExcelComponent \<times> efecto list" where
  \<comment> \<open>the callback that \<open>cargarArchivo\<close> hands to \<open>setTimeout\<close>\<close>
  "cargarArchivo_diferido s =
     (let (s1, e1) = simularProgresoGradual s;
          (s2, e2) = conectarWebSocket s1;
          (s3, e3) = ejecutarCarga s2
      in (s3, e1 @ e2 @ e3))"

text \<open>The events that reach the component, each attended to completion before the
  next: a change of the file input, a validation response, a click on the upload button
  with the answer to its confirm dialog, and the expiry of the timer that
  \<open>cargarArchivo\<close> starts.\<close>

datatype evento =
    SeleccionarArchivo "File option"
  | RespuestaValidacion ValidacionExcel
  | PulsarCargar bool
  | VenceTemporizadorCarga

fun atender :: "evento \<Rightarrow> CargaExcelComponent \<Rightarrow> CargaExcelComponent \<times> efecto list" where
  "atender (SeleccionarArchivo file) s = onFileSelected file s"
| "atender (RespuestaValidacion v) s = (validarArchivo_next v s, [])"
| "atender (PulsarCargar confirmar) s = cargarArchivo confirmar s"
| "atender VenceTemporizadorCarga s = cargarArchivo_diferido s"

fun atender_todos ::
  "evento list \<Rightarrow> CargaExcelComponent \<Rightarrow> CargaExcelComponent \<times> efecto list" where
  \<comment> \<open>the state after the events and the effects they started, in order\<close>
  "atender_todos [] s = (s, [])"
| "atender_todos (e # es) s =
     (let (s1, e1) = atender e s;
          (s2, e2) = atender_todos es s1
      in (s2, e1 @ e2))"

text \<open>The earlier version of the component (the second file that declares
  \<open>CargaExcelComponent\<close>) reports through \<open>alert\<close> and calls the service at once.
  It uses the fields of the record above that it declares.\<close>

definition cargarArchivo_previo ::
  "bool \<Rightarrow> CargaExcelComponent \<Rightarrow> CargaExcelComponent \<times> efecto list" where
  "cargarArchivo_previo confirmar s =
     (if archivoSeleccionado s = None \<or> \<not> validacion_valida s
      then (s, [Alerta ''Primero valida el archivo''])
      else if \<not> confirmar then (s, [])
      else
        (let s1 = s\<lparr>cargando := True, progreso := 0, resultado := None\<rparr>;
             s2 = s1\<lparr>websocket := True\<rparr>
         in case archivoSeleccionado s2 of
              None \<Rightarrow> (s2, [AbrirWebSocket])
            | Some f \<Rightarrow> (s2, [AbrirWebSocket, LlamarCargarExcel f])))"

definition componente_inicial :: CargaExcelComponent where
  \<comment> \<open>the field initialisers of the class\<close>
  "componente_inicial =
     \<lparr>archivoSeleccionado = None, nombreArchivo = [], validacion = None, resultado = None,
      validando = False, cargando = False, mostrarVistaPrevia = False,
      mensajeError = [], mensajeExito = [], mensajeAdvertencia = [],
      progreso = 0, progresoMensaje = [], websocket = False, intervaloSimulacion = None\<rparr>"

definition segmento_final :: "string \<Rightarrow> string" where
  \<comment> \<open>what follows the last dot of a name, the whole name when it has no dot\<close>
  "segmento_final n = rev (takeWhile (\<lambda>c. c \<noteq> CHR ''.'') (rev n))"

definition archivo_aceptado :: "File \<Rightarrow> CargaExcelComponent \<Rightarrow> bool" where
  \<comment> \<open>the state in which the file has been taken\<close>
  "archivo_aceptado f s =
     (archivoSeleccionado s = Some f \<and> nombreArchivo s = file_name f \<and>
      validacion s = None \<and> resultado s = None \<and> \<not> mostrarVistaPrevia s)"

definition validacion_ejemplo :: "int \<Rightarrow> ValidacionExcel" where
  "validacion_ejemplo n =
     \<lparr>valido = True, mensaje_validacion = ''Archivo valido'', errores_validacion = [],
      total_filas = n, datos_previos = [], advertencias = None\<rparr>"

definition componente_validado :: "int \<Rightarrow> CargaExcelComponent" where
  \<comment> \<open>a file has been selected and validated with n rows\<close>
  "componente_validado n =
     componente_inicial
       \<lparr>archivoSeleccionado := Some \<lparr>file_name = ''productos.xlsx'', file_size = 2048\<rparr>,
        nombreArchivo := ''productos.xlsx'',
        validacion := Some (validacion_ejemplo n)\<rparr>"

definition archivo_a :: File where
  "archivo_a = \<lparr>file_name = ''a.xlsx'', file_size = 2048\<rparr>"

definition archivo_b :: File where
  "archivo_b = \<lparr>file_name = ''b.xlsx'', file_size = 4096\<rparr>"

definition validacion_rechazada :: ValidacionExcel where
  "validacion_rechazada =
     \<lparr>valido = False, mensaje_validacion = ''Archivo con errores'',
      errores_validacion = [''Fila 2: precio negativo''],
      total_filas = 1, datos_previos = [], advertencias = None\<rparr>"

definition antes_del_temporizador :: "evento list" where
  \<comment> \<open>file a is chosen, then file b while the validation of a is under way; the answer
      for a arrives and is valid; the user uploads and confirms; the answer for b arrives
      and is not valid\<close>
  "antes_del_temporizador =
     [SeleccionarArchivo (Some archivo_a), SeleccionarArchivo (Some archivo_b),
      RespuestaValidacion (validacion_ejemplo 10), PulsarCargar True,
      RespuestaValidacion validacion_rechazada]"

section \<open>The two ProductoService classes: the Excel endpoints\<close>

text \<open>A request as the HTTP client receives it: the method, the URL and the entries of
  the \<open>FormData\<close> body in the order they were appended.\<close>

record peticion_http =
  metodo :: string
  url :: string
  cuerpo :: "(string \<times> File) list"

definition apiUrl :: string where
  \<comment> \<open>the private field of the service that has the address written in\<close>
  "apiUrl = ''http://localhost:8000/api''"

definition validarExcel :: "File \<Rightarrow> peticion_http" where
  "validarExcel archivo =
     (let formData = [] @ [(''file'', archivo)]
      in \<lparr>metodo = ''POST'', url = apiUrl @ ''/productos/validar-excel'', cuerpo = formData\<rparr>)"

definition cargarExcel :: "File \<Rightarrow> peticion_http" where
  "cargarExcel archivo =
     (let formData = [] @ [(''file'', archivo)]
      in \<lparr>metodo = ''POST'', url = apiUrl @ ''/productos/cargar-excel'', cuerpo = formData\<rparr>)"

text \<open>The other service class takes its base address from \<open>environment.apiUrl\<close>,
  a file that is not part of the sources: it is a parameter here.\<close>

definition validarExcel_entorno :: "string \<Rightarrow> File \<Rightarrow> peticion_http" where
  "validarExcel_entorno apiUrl_entorno archivo =
     (let formData = [] @ [(''archivo'', archivo)]
      in \<lparr>metodo = ''POST'', url = apiUrl_entorno @ ''/productos/validar-excel'',
          cuerpo = formData\<rparr>)"

definition cargarExcel_entorno :: "string \<Rightarrow> File \<Rightarrow> peticion_http" where
  "cargarExcel_entorno apiUrl_entorno archivo =
     (let formData = [] @ [(''archivo'', archivo)]
      in \<lparr>metodo = ''POST'', url = apiUrl_entorno @ ''/productos/cargar-excel'',
          cuerpo = formData\<rparr>)"

definition sufijo_ruta :: "string \<Rightarrow> string \<Rightarrow> string option" where
  \<comment> \<open>what a URL adds to a base address\<close>
  "sufijo_ruta base u = (if prefix base u then Some (drop (length base) u) else None)"

definition campos_formulario :: "peticion_http \<Rightarrow> string list" where
  "campos_formulario r = map fst (cuerpo r)"

definition archivo_ejemplo :: File where
  "archivo_ejemplo = \<lparr>file_name = ''productos.xlsx'', file_size = 2048\<rparr>"

section \<open>The table productos (init.sql)\<close>

text \<open>
  A row holds a value or NULL (\<open>None\<close>) in every column; the values are those stored,
  after their coercion to the column types. Timestamps are natural numbers.
  The constraints of the table are checks on a row that is about to be stored.
\<close>

record fila =
  col_id :: "int option"
  col_codigo :: "string option"
  col_nombre :: "string option"
  col_descripcion :: "string option"
  col_cantidad :: "int option"
  col_precio :: "rat option"
  col_categoria :: "string option"
  col_fecha_creacion :: "nat option"
  col_fecha_actualizacion :: "nat option"

datatype error_sql =
    ViolacionNoNulo string
  | ViolacionCheck string
  | ViolacionUnica string

definition sql_trim :: "string \<Rightarrow> string" where
  \<comment> \<open>\<open>TRIM(s)\<close>: the spaces at both ends are removed\<close>
  "sql_trim s =
     rev (dropWhile (\<lambda>c. c = CHR '' '') (rev (dropWhile (\<lambda>c. c = CHR '' '') s)))"

text \<open>A CHECK constraint is violated only when its expression is false: on NULL it
  passes, and NOT NULL is what refuses the row.\<close>

definition check_cantidad :: "fila \<Rightarrow> bool" where
  "check_cantidad r = (case col_cantidad r of None \<Rightarrow> True | Some q \<Rightarrow> q \<ge> 0)"

definition check_precio :: "fila \<Rightarrow> bool" where
  "check_precio r = (case col_precio r of None \<Rightarrow> True | Some p \<Rightarrow> p \<ge> 0)"

definition check_codigo_no_vacio :: "fila \<Rightarrow> bool" where
  "check_codigo_no_vacio r =
     (case col_codigo r of None \<Rightarrow> True | Some c \<Rightarrow> length (sql_trim c) > 0)"

definition check_nombre_no_vacio :: "fila \<Rightarrow> bool" where
  "check_nombre_no_vacio r =
     (case col_nombre r of None \<Rightarrow> True | Some n \<Rightarrow> length (sql_trim n) > 0)"

definition restricciones_fila :: "fila \<Rightarrow> error_sql option" where
  \<comment> \<open>NOT NULL (the primary key included), then the four CHECK constraints\<close>
  "restricciones_fila r =
     (if col_id r = None then Some (ViolacionNoNulo ''id'')
      else if col_codigo r = None then Some (ViolacionNoNulo ''codigo'')
      else if col_nombre r = None then Some (ViolacionNoNulo ''nombre'')
      else if col_cantidad r = None then Some (ViolacionNoNulo ''cantidad'')
      else if col_precio r = None then Some (ViolacionNoNulo ''precio'')
      else if \<not> check_cantidad r then Some (ViolacionCheck ''check_cantidad'')
      else if \<not> check_precio r then Some (ViolacionCheck ''check_precio'')
      else if \<not> check_codigo_no_vacio r then Some (ViolacionCheck ''check_codigo_no_vacio'')
      else if \<not> check_nombre_no_vacio r then Some (ViolacionCheck ''check_nombre_no_vacio'')
      else None)"

definition restricciones_unicas :: "fila list \<Rightarrow> fila \<Rightarrow> error_sql option" where
  \<comment> \<open>PRIMARY KEY on id and UNIQUE on codigo, against the other rows of the table\<close>
  "restricciones_unicas otras r =
     (if (\<exists>x \<in> set otras. col_id x = col_id r)
      then Some (ViolacionUnica ''productos_pkey'')
      else if (\<exists>x \<in> set otras. col_codigo x = col_codigo r)
      then Some (ViolacionUnica ''productos_codigo_key'')
      else None)"

record bd =
  filas :: "fila list"
  secuencia :: int

definition bd_inicial :: bd where
  \<comment> \<open>after CREATE TABLE: no rows, the sequence of the SERIAL column not yet used\<close>
  "bd_inicial = \<lparr>filas = [], secuencia = 0\<rparr>"

text \<open>An INSERT names a column or leaves it out: \<open>None\<close> is a column left out, which
  takes its DEFAULT; \<open>Some v\<close> is the value given, \<open>Some None\<close> an explicit NULL.\<close>

record sentencia_insert =
  ins_id :: "int option option"
  ins_codigo :: "string option option"
  ins_nombre :: "string option option"
  ins_descripcion :: "string option option"
  ins_cantidad :: "int option option"
  ins_precio :: "rat option option"
  ins_categoria :: "string option option"
  ins_fecha_creacion :: "nat option option"
  ins_fecha_actualizacion :: "nat option option"

definition por_defecto :: "'a option \<Rightarrow> 'a option option \<Rightarrow> 'a option" where
  "por_defecto d v = (case v of None \<Rightarrow> d | Some x \<Rightarrow> x)"

definition fila_nueva :: "nat \<Rightarrow> sentencia_insert \<Rightarrow> int \<Rightarrow> fila" where
  \<comment> \<open>the row that an INSERT proposes; \<open>siguiente\<close> is the value the sequence gives\<close>
  "fila_nueva ahora st siguiente =
     \<lparr>col_id = por_defecto (Some siguiente) (ins_id st),
      col_codigo = por_defecto None (ins_codigo st),
      col_nombre = por_defecto None (ins_nombre st),
      col_descripcion = por_defecto None (ins_descripcion st),
      col_cantidad = por_defecto (Some 0) (ins_cantidad st),
      col_precio = por_defecto None (ins_precio st),
      col_categoria = por_defecto None (ins_categoria st),
      col_fecha_creacion = por_defecto (Some ahora) (ins_fecha_creacion st),
      col_fecha_actualizacion = por_defecto (Some ahora) (ins_fecha_actualizacion st)\<rparr>"

definition insertar :: "nat \<Rightarrow> sentencia_insert \<Rightarrow> bd \<Rightarrow> error_sql option \<times> bd" where
  \<comment> \<open>one row; \<open>ahora\<close> is CURRENT_TIMESTAMP. A refused row leaves the rows as they
      were (the sequence keeps the value it drew).\<close>
  "insertar ahora st db =
     (let db1 = (if ins_id st = None then db\<lparr>secuencia := secuencia db + 1\<rparr> else db);
          nueva = fila_nueva ahora st (secuencia db1)
      in case restricciones_fila nueva of
           Some e \<Rightarrow> (Some e, db1)
         | None \<Rightarrow>
             (case restricciones_unicas (filas db1) nueva of
                Some e \<Rightarrow> (Some e, db1)
              | None \<Rightarrow> (None, db1\<lparr>filas := filas db1 @ [nueva]\<rparr>)))"

text \<open>An UPDATE has a WHERE condition and, for each column, either no assignment
  (\<open>None\<close>) or an expression over the old row.\<close>

record sentencia_update =
  donde :: "fila \<Rightarrow> bool"
  set_id :: "(fila \<Rightarrow> int option) option"
  set_codigo :: "(fila \<Rightarrow> string option) option"
  set_nombre :: "(fila \<Rightarrow> string option) option"
  set_descripcion :: "(fila \<Rightarrow> string option) option"
  set_cantidad :: "(fila \<Rightarrow> int option) option"
  set_precio :: "(fila \<Rightarrow> rat option) option"
  set_categoria :: "(fila \<Rightarrow> string option) option"
  set_fecha_creacion :: "(fila \<Rightarrow> nat option) option"
  set_fecha_actualizacion :: "(fila \<Rightarrow> nat option) option"

definition asignar :: "(fila \<Rightarrow> 'a) option \<Rightarrow> fila \<Rightarrow> 'a \<Rightarrow> 'a" where
  "asignar e vieja actual = (case e of None \<Rightarrow> actual | Some g \<Rightarrow> g vieja)"

definition aplicar_set :: "sentencia_update \<Rightarrow> fila \<Rightarrow> fila" where
  \<comment> \<open>the row NEW that the statement proposes for the row OLD\<close>
  "aplicar_set u vieja =
     \<lparr>col_id = asignar (set_id u) vieja (col_id vieja),
      col_codigo = asignar (set_codigo u) vieja (col_codigo vieja),
      col_nombre = asignar (set_nombre u) vieja (col_nombre vieja),
      col_descripcion = asignar (set_descripcion u) vieja (col_descripcion vieja),
      col_cantidad = asignar (set_cantidad u) vieja (col_cantidad vieja),
      col_precio = asignar (set_precio u) vieja (col_precio vieja),
      col_categoria = asignar (set_categoria u) vieja (col_categoria vieja),
      col_fecha_creacion = asignar (set_fecha_creacion u) vieja (col_fecha_creacion vieja),
      col_fecha_actualizacion =
        asignar (set_fecha_actualizacion u) vieja (col_fecha_actualizacion vieja)\<rparr>"

definition actualizar_fecha_modificacion :: "nat \<Rightarrow> fila \<Rightarrow> fila" where
  \<comment> \<open>the trigger function: it receives NEW and returns the row to store\<close>
  "actualizar_fecha_modificacion ahora nueva = nueva\<lparr>col_fecha_actualizacion := Some ahora\<rparr>"

fun actualizar_filas ::
  "nat \<Rightarrow> sentencia_update \<Rightarrow> fila list \<Rightarrow> fila list \<Rightarrow> error_sql + fila list" where
  \<comment> \<open>the rows already visited and those still to visit; BEFORE UPDATE ... FOR EACH ROW
      runs the trigger on every row the statement changes, before the constraints\<close>
  "actualizar_filas ahora u hechas [] = Inr hechas"
| "actualizar_filas ahora u hechas (r # rs) =
     (if donde u r
      then
        (let nueva = actualizar_fecha_modificacion ahora (aplicar_set u r) in
         case restricciones_fila nueva of
           Some e \<Rightarrow> Inl e
         | None \<Rightarrow>
             (case restricciones_unicas (hechas @ rs) nueva of
                Some e \<Rightarrow> Inl e
              | None \<Rightarrow> actualizar_filas ahora u (hechas @ [nueva]) rs))
      else actualizar_filas ahora u (hechas @ [r]) rs)"

definition actualizar :: "nat \<Rightarrow> sentencia_update \<Rightarrow> bd \<Rightarrow> error_sql option \<times> bd" where
  \<comment> \<open>a statement that fails on one row changes nothing\<close>
  "actualizar ahora u db =
     (case actualizar_filas ahora u [] (filas db) of
        Inl e \<Rightarrow> (Some e, db)
      | Inr fs \<Rightarrow> (None, db\<lparr>filas := fs\<rparr>))"

definition filas_propuestas :: "nat \<Rightarrow> sentencia_update \<Rightarrow> fila list \<Rightarrow> fila list" where
  \<comment> \<open>the rows an UPDATE asks for: each row of its WHERE as assigned and then stamped
      by the trigger, the others as they are\<close>
  "filas_propuestas ahora u fs =
     map (\<lambda>r. if donde u r
                then actualizar_fecha_modificacion ahora (aplicar_set u r)
                else r) fs"

definition fila_valida :: "fila \<Rightarrow> bool" where
  \<comment> \<open>what the table promises of each row\<close>
  "fila_valida r =
     (\<exists>c n q p. col_codigo r = Some c \<and> col_nombre r = Some n \<and>
                 col_cantidad r = Some q \<and> col_precio r = Some p \<and>
                 q \<ge> 0 \<and> p \<ge> 0 \<and> sql_trim c \<noteq> [] \<and> sql_trim n \<noteq> [])"

definition fila_valida_blancos :: "fila \<Rightarrow> bool" where
  \<comment> \<open>the same with \<open>codigo\<close> and \<open>nombre\<close> trimmed of every kind of white space
      (tabs and line breaks too), not of spaces alone\<close>
  "fila_valida_blancos r =
     (\<exists>c n q p. col_codigo r = Some c \<and> col_nombre r = Some n \<and>
                 col_cantidad r = Some q \<and> col_precio r = Some p \<and>
                 q \<ge> 0 \<and> p \<ge> 0 \<and> trim_js c \<noteq> [] \<and> trim_js n \<noteq> [])"

definition invariante_tabla :: "bd \<Rightarrow> bool" where
  "invariante_tabla db =
     ((\<forall>r \<in> set (filas db). fila_valida r) \<and> distinct (map col_codigo (filas db)))"

definition sin_asignaciones :: sentencia_update where
  \<comment> \<open>an UPDATE of every row that assigns nothing; examples override its fields\<close>
  "sin_asignaciones =
     \<lparr>donde = (\<lambda>r. True), set_id = None, set_codigo = None, set_nombre = None,
      set_descripcion = None, set_cantidad = None, set_precio = None, set_categoria = None,
      set_fecha_creacion = None, set_fecha_actualizacion = None\<rparr>"

definition insert_semilla :: "string \<Rightarrow> string \<Rightarrow> string \<Rightarrow> int \<Rightarrow> rat \<Rightarrow> string
    \<Rightarrow> sentencia_insert" where
  \<comment> \<open>the shape of the INSERT that closes init.sql: six columns are given\<close>
  "insert_semilla c n d q p cat =
     \<lparr>ins_id = None, ins_codigo = Some (Some c), ins_nombre = Some (Some n),
      ins_descripcion = Some (Some d), ins_cantidad = Some (Some q),
      ins_precio = Some (Some p), ins_categoria = Some (Some cat),
      ins_fecha_creacion = None, ins_fecha_actualizacion = None\<rparr>"

definition bd_semilla :: bd where
  \<comment> \<open>the table after the second row of the seed data has been inserted at time 7\<close>
  "bd_semilla =
     snd (insertar 7
            (insert_semilla ''PROD002'' ''Mouse Logitech MX Master''
               ''Mouse ergonomico inalambrico'' 25 (9999 / 100) ''Accesorios'')
            bd_inicial)"

definition update_ejemplo :: sentencia_update where
  \<comment> \<open>UPDATE productos SET cantidad = cantidad - 1 WHERE codigo = 'PROD002'\<close>
  "update_ejemplo =
     sin_asignaciones
       \<lparr>donde := (\<lambda>r. col_codigo r = Some ''PROD002''),
        set_cantidad := Some (\<lambda>r. map_option (\<lambda>q. q - 1) (col_cantidad r))\<rparr>"

definition update_negativo :: sentencia_update where
  \<comment> \<open>UPDATE productos SET cantidad = -1 WHERE codigo = 'PROD002'\<close>
  "update_negativo =
     sin_asignaciones
       \<lparr>donde := (\<lambda>r. col_codigo r = Some ''PROD002''),
        set_cantidad := Some (\<lambda>r. Some (- 1))\<rparr>"

definition insert_tabulador :: sentencia_insert where
  \<comment> \<open>a row whose code is one tab character\<close>
  "insert_tabulador = insert_semilla [CHR 0x09] ''Sin codigo'' ''Tabulador'' 1 5 ''Accesorios''"

definition insert_repetido :: sentencia_insert where
  \<comment> \<open>a second row with the code PROD002\<close>
  "insert_repetido = insert_semilla ''PROD002'' ''Otro mouse'' ''Repetido'' 1 5 ''Accesorios''"

section \<open>Pagination of the product list\<close>

lemma ceil_div_js_5: "ceil_div_js (int n) 5 = (int n + 4) div 5"
proof -
  have "\<lceil>(of_int (int n) :: rat) / of_int 5\<rceil> = - \<lfloor>(of_int (- int n) :: rat) / of_int 5\<rfloor>"
    by (simp add: ceiling_def)
  also have "\<dots> = - ((- int n) div 5)"
    by (simp only: floor_divide_of_int_eq)
  also have "\<dots> = (int n + 4) div 5"
    by presburger
  finally show ?thesis
    by (simp add: ceil_div_js_def)
qed

lemma slice_js_pagina:
  assumes "1 \<le> p"
  shows "slice_js ((p - 1) * 5) ((p - 1) * 5 + 5) xs = take 5 (drop (nat ((p - 1) * 5)) xs)"
proof -
  let ?k = "(p - 1) * 5"
  have k0: "0 \<le> ?k" using assms by simp
  show ?thesis
  proof (cases "?k \<le> int (length xs)")
    case True
    then show ?thesis using k0
      by (auto simp: slice_js_def Let_def min_def nat_diff_distrib take_all_iff
          intro!: take_all)
  next
    case False
    then show ?thesis using k0
      by (simp add: slice_js_def Let_def min_def)
  qed
qed

lemma take_drop_indices:
  "take m (drop k xs) = map (nth xs) [k ..< min (k + m) (length xs)]"
proof (rule nth_equalityI)
  show "length (take m (drop k xs)) = length (map (nth xs) [k ..< min (k + m) (length xs)])"
    by (simp add: min_def) arith
next
  fix i assume "i < length (take m (drop k xs))"
  then have i: "i < m" "k + i < length xs" by auto
  then have "k + i < min (k + m) (length xs)" by simp
  then have "map (nth xs) [k ..< min (k + m) (length xs)] ! i = xs ! (k + i)"
    by (simp del: min_less_iff_conj)
  moreover have "take m (drop k xs) ! i = xs ! (k + i)"
    using i by simp
  ultimately show "take m (drop k xs) ! i = map (nth xs) [k ..< min (k + m) (length xs)] ! i"
    by simp
qed

lemma concat_paginas:
  "concat (map (\<lambda>q. take 5 (drop (q * 5) xs)) [0 ..< n]) = take (n * 5) xs"
proof (induction n)
  case 0
  then show ?case by simp
next
  case (Suc n)
  have "take (n * 5) xs @ take 5 (drop (n * 5) xs) = take (n * 5 + 5) xs"
    by (simp add: take_add)
  with Suc show ?case by (simp add: add.commute)
qed

lemma totalPaginas_calcular:
  "productosPorPagina s = 5 \<Longrightarrow>
   totalPaginas (calcularTotalPaginas s) = (int (length (productosFiltrados s)) + 4) div 5"
  by (simp add: calcularTotalPaginas_def Let_def ceil_div_js_5)

lemma productosFiltrados_calcular [simp]:
  "productosFiltrados (calcularTotalPaginas s) = productosFiltrados s"
  by (simp add: calcularTotalPaginas_def Let_def)

lemma productosPorPagina_calcular [simp]:
  "productosPorPagina (calcularTotalPaginas s) = productosPorPagina s"
  by (simp add: calcularTotalPaginas_def Let_def)

lemma pagina_es_rebanada:
  assumes "productosPorPagina s = 5" and "1 \<le> p"
  shows "obtenerProductosPaginados (s\<lparr>paginaActual := p\<rparr>) =
         take 5 (drop (nat ((p - 1) * 5)) (productosFiltrados s))"
proof -
  have "obtenerProductosPaginados (s\<lparr>paginaActual := p\<rparr>) =
        slice_js ((p - 1) * 5) ((p - 1) * 5 + 5) (productosFiltrados s)"
    using assms(1) by (simp add: obtenerProductosPaginados_def Let_def)
  also have "\<dots> = take 5 (drop (nat ((p - 1) * 5)) (productosFiltrados s))"
    using assms(2) by (rule slice_js_pagina)
  finally show ?thesis .
qed

text \<open>
  C4. With five products per page, \<open>calcularTotalPaginas\<close> sets \<open>totalPaginas\<close> to
  the ceiling of the number of filtered products divided by 5; on every page from 1 to
  \<open>totalPaginas\<close>, \<open>obtenerProductosPaginados\<close> returns the filtered products at the
  indices from \<open>(p - 1) * 5\<close> up to, not including, \<open>p * 5\<close> (those that exist); and
  the pages 1 to \<open>totalPaginas\<close>, one after the other, are the filtered products.
\<close>

theorem paginacion_particiona:
  assumes "productosPorPagina s = 5"
  shows
    "totalPaginas (calcularTotalPaginas s)
       = \<lceil>(of_nat (length (productosFiltrados s)) :: rat) / 5\<rceil>
     \<and> (\<forall>p. 1 \<le> p \<and> p \<le> totalPaginas (calcularTotalPaginas s) \<longrightarrow>
            obtenerProductosPaginados ((calcularTotalPaginas s)\<lparr>paginaActual := p\<rparr>)
              = map (nth (productosFiltrados s))
                  [nat ((p - 1) * 5) ..< min (nat (p * 5)) (length (productosFiltrados s))])
     \<and> concat (map (\<lambda>p. obtenerProductosPaginados
                            ((calcularTotalPaginas s)\<lparr>paginaActual := int p\<rparr>))
                    [1 ..< Suc (nat (totalPaginas (calcularTotalPaginas s)))])
         = productosFiltrados s"
proof (intro conjI allI impI)
  let ?xs = "productosFiltrados s"
  let ?t = "calcularTotalPaginas s"
  have ppp: "productosPorPagina ?t = 5" using assms by simp
  have total: "totalPaginas ?t = (int (length ?xs) + 4) div 5"
    using assms by (rule totalPaginas_calcular)
  show "totalPaginas ?t = \<lceil>(of_nat (length ?xs) :: rat) / 5\<rceil>"
    using assms by (simp add: calcularTotalPaginas_def Let_def ceil_div_js_def)
  {
    fix p :: int
    assume p: "1 \<le> p \<and> p \<le> totalPaginas ?t"
    have "int (nat ((p - 1) * 5) + 5) = int (nat (p * 5))" using p by simp
    then have "nat ((p - 1) * 5) + 5 = nat (p * 5)" by (simp only: of_nat_eq_iff)
    then show "obtenerProductosPaginados (?t\<lparr>paginaActual := p\<rparr>)
            = map (nth ?xs) [nat ((p - 1) * 5) ..< min (nat (p * 5)) (length ?xs)]"
      using p pagina_es_rebanada [OF ppp, of p] take_drop_indices [of 5 "nat ((p - 1) * 5)" ?xs]
      by simp
  }
  let ?n = "nat (totalPaginas ?t)"
  have pagina: "obtenerProductosPaginados (?t\<lparr>paginaActual := int (Suc q)\<rparr>)
        = take 5 (drop (q * 5) ?xs)" for q
  proof -
    have "nat ((int (Suc q) - 1) * 5) = q * 5"
      by (simp add: nat_mult_distrib)
    then show ?thesis
      using pagina_es_rebanada [OF ppp, of "int (Suc q)"] by simp
  qed
  have "[1 ..< Suc ?n] = map Suc [0 ..< ?n]"
    by (simp only: map_Suc_upt One_nat_def)
  then have "map (\<lambda>p. obtenerProductosPaginados (?t\<lparr>paginaActual := int p\<rparr>)) [1 ..< Suc ?n]
      = map (\<lambda>q. take 5 (drop (q * 5) ?xs)) [0 ..< ?n]"
    by (simp only: map_map o_def pagina)
  moreover have "length ?xs \<le> ?n * 5"
    using total by linarith
  ultimately show "concat (map (\<lambda>p. obtenerProductosPaginados (?t\<lparr>paginaActual := int p\<rparr>))
                     [1 ..< Suc ?n]) = ?xs"
    by (simp add: concat_paginas del: upt_Suc)
qed

theorem paginacion_particiona_witness:
  "productosPorPagina (estado_inicial\<lparr>productosFiltrados := siete_productos\<rparr>) = 5
   \<and> totalPaginas (calcularTotalPaginas (estado_inicial\<lparr>productosFiltrados := siete_productos\<rparr>)) = 2
   \<and> obtenerProductosPaginados
        ((calcularTotalPaginas (estado_inicial\<lparr>productosFiltrados := siete_productos\<rparr>))
           \<lparr>paginaActual := 2\<rparr>)
      = [producto_ejemplo ''P6'' ''Cable'' 60, producto_ejemplo ''P7'' ''Base'' 70]"
proof -
  let ?s = "estado_inicial\<lparr>productosFiltrados := siete_productos\<rparr>"
  have h: "productosPorPagina ?s = 5" by (simp add: estado_inicial_def)
  have xs: "productosFiltrados ?s = siete_productos" by simp
  have len: "length siete_productos = 7" by (simp add: siete_productos_def)
  note t = paginacion_particiona [OF h]
  have total: "totalPaginas (calcularTotalPaginas ?s) = 2"
    using t by (simp only: xs len) (simp add: ceiling_eq_iff)
  have "(1::int) \<le> 2 \<and> 2 \<le> totalPaginas (calcularTotalPaginas ?s)"
    using total by simp
  with t have "obtenerProductosPaginados ((calcularTotalPaginas ?s)\<lparr>paginaActual := 2\<rparr>)
      = map (nth (productosFiltrados ?s))
          [nat ((2 - 1) * 5) ..< min (nat (2 * 5)) (length (productosFiltrados ?s))]"
    by blast
  also have "\<dots> = map (nth siete_productos) [5 ..< 7]"
    by (simp only: xs len) simp
  also have "[5 ..< 7] = [5, 6 :: nat]"
    by (simp add: upt_rec)
  also have "map (nth siete_productos) [5, 6]
      = [producto_ejemplo ''P6'' ''Cable'' 60, producto_ejemplo ''P7'' ''Base'' 70]"
    by (simp add: siete_productos_def)
  finally show ?thesis using h total by simp
qed

section \<open>Search and the page invariant\<close>

lemma includes_js_sublist: "includes_js s t = sublist t s"
proof (induction s)
  case Nil
  then show ?case by simp
next
  case (Cons c cs)
  then show ?case by (simp add: sublist_Cons_right disj_commute)
qed

lemma dropWhile_vacio: "(dropWhile P xs = []) = (\<forall>x \<in> set xs. P x)"
  by (induction xs) auto

lemma trim_js_vacio: "(trim_js s = []) = solo_blancos s"
proof -
  have "(trim_js s = []) = (dropWhile es_blanco_js (rev (dropWhile es_blanco_js s)) = [])"
    by (simp add: trim_js_def)
  also have "\<dots> = (\<forall>c \<in> set (dropWhile es_blanco_js s). es_blanco_js c)"
    by (simp add: dropWhile_vacio)
  also have "\<dots> = (\<forall>c \<in> set s. es_blanco_js c)"
  proof
    assume a: "\<forall>c \<in> set (dropWhile es_blanco_js s). es_blanco_js c"
    show "\<forall>c \<in> set s. es_blanco_js c"
    proof (cases "dropWhile es_blanco_js s")
      case Nil
      then show ?thesis by (simp add: dropWhile_vacio)
    next
      case (Cons x xs)
      then have "\<not> es_blanco_js x" using hd_dropWhile [of es_blanco_js s] by auto
      moreover have "x \<in> set (dropWhile es_blanco_js s)" using Cons by simp
      ultimately show ?thesis using a by blast
    qed
  next
    assume "\<forall>c \<in> set s. es_blanco_js c"
    then show "\<forall>c \<in> set (dropWhile es_blanco_js s). es_blanco_js c"
      using set_dropWhileD by fast
  qed
  finally show ?thesis by (simp add: solo_blancos_def)
qed

lemma es_blanco_toLowerCase_char: "es_blanco_js (toLowerCase_char c) = es_blanco_js c"
proof -
  have "of_char (char_of (of_char c + 32 :: nat)) = ((of_char c + 32) mod 256 :: nat)"
    by (simp only: of_char_of)
  then show ?thesis
    by (auto simp: es_blanco_js_def toLowerCase_char_def Let_def)
qed

lemma solo_blancos_toLowerCase: "solo_blancos (toLowerCase s) = solo_blancos s"
  by (simp add: solo_blancos_def toLowerCase_def es_blanco_toLowerCase_char)

lemma coincide_contiene:
  assumes "t \<noteq> []"
  shows "coincide t p =
     (contiene (codigo p) t \<or> contiene (nombre p) t \<or>
      (\<exists>d. descripcion p = Some d \<and> contiene d t) \<or>
      (\<exists>c. categoria p = Some c \<and> contiene c t))"
proof -
  have "(d \<noteq> [] \<and> sublist t (toLowerCase d)) = sublist t (toLowerCase d)" for d
    using assms by (cases d) (auto simp: toLowerCase_def)
  then show ?thesis
    by (simp add: coincide_def contiene_def includes_js_sublist split: option.splits)
qed

lemma invariante_calcular: "invariante_pagina s \<Longrightarrow> invariante_pagina (calcularTotalPaginas s)"
  by (auto simp: invariante_pagina_def calcularTotalPaginas_def Let_def)

lemma invariante_aplicar: "invariante_pagina (aplicarFiltros s)"
  by (auto simp: invariante_pagina_def aplicarFiltros_def calcularTotalPaginas_def Let_def)

lemma invariante_ejecutar: "invariante_pagina s \<Longrightarrow> invariante_pagina (ejecutar op s)"
proof (cases op)
  case (CambiarPagina n)
  assume "invariante_pagina s"
  then show ?thesis using CambiarPagina
    by (auto simp: invariante_pagina_def cambiarPagina_def)
next
  case (ProductosRecibidos data)
  have "invariante_pagina (aplicarFiltros (s\<lparr>productos := data\<rparr>))"
    by (rule invariante_aplicar)
  then show ?thesis using ProductosRecibidos
    by (simp add: cargarProductos_next_def invariante_pagina_def)
next
  case (EscribirTermino t)
  assume "invariante_pagina s"
  then show ?thesis using EscribirTermino by (simp add: invariante_pagina_def)
qed (simp_all add: invariante_aplicar invariante_calcular buscar_def limpiarBusqueda_def)

lemma invariante_ejecutar_todas:
  "invariante_pagina s \<Longrightarrow> invariante_pagina (ejecutar_todas ops s)"
  by (induction ops arbitrary: s) (simp_all add: invariante_ejecutar)

text \<open>
  C9. After any sequence of \<open>aplicarFiltros\<close>, \<open>buscar\<close>, \<open>limpiarBusqueda\<close>,
  \<open>cambiarPagina\<close> and \<open>calcularTotalPaginas\<close> (and of arrivals of the product list and
  edits of the search box) from the initial state, \<open>paginaActual\<close> is at least 1 and,
  when \<open>totalPaginas\<close> is at least 1, at most \<open>totalPaginas\<close>; the same sequence keeps
  this true from any state where it holds; and \<open>cambiarPagina\<close> changes nothing when
  its argument is outside 1..\<open>totalPaginas\<close>.
\<close>

theorem paginaActual_en_rango:
  "invariante_pagina (ejecutar_todas ops estado_inicial)
   \<and> (invariante_pagina s \<longrightarrow> invariante_pagina (ejecutar_todas ops s))
   \<and> (n < 1 \<or> n > totalPaginas s \<longrightarrow> cambiarPagina n s = s)"
proof (intro conjI impI)
  have "invariante_pagina estado_inicial"
    by (simp add: invariante_pagina_def estado_inicial_def)
  then show "invariante_pagina (ejecutar_todas ops estado_inicial)"
    by (rule invariante_ejecutar_todas)
next
  assume "invariante_pagina s"
  then show "invariante_pagina (ejecutar_todas ops s)"
    by (rule invariante_ejecutar_todas)
next
  assume "n < 1 \<or> n > totalPaginas s"
  then show "cambiarPagina n s = s"
    by (auto simp: cambiarPagina_def)
qed

theorem paginaActual_en_rango_witness:
  "invariante_pagina
     (ejecutar_todas
        [ProductosRecibidos siete_productos, CambiarPagina 2, EscribirTermino ''mouse'', Buscar]
        estado_inicial)
   \<and> invariante_pagina estado_inicial
   \<and> (5 > totalPaginas estado_inicial)
   \<and> cambiarPagina 5 estado_inicial = estado_inicial"
proof -
  note t = paginaActual_en_rango
    [of "[ProductosRecibidos siete_productos, CambiarPagina 2, EscribirTermino ''mouse'', Buscar]"
        estado_inicial 5]
  have i: "invariante_pagina estado_inicial"
    by (simp add: invariante_pagina_def estado_inicial_def)
  have g: "5 > totalPaginas estado_inicial"
    by (simp add: estado_inicial_def)
  from t i g show ?thesis by blast
qed

text \<open>
  C5. \<open>aplicarFiltros\<close> sets \<open>productosFiltrados\<close> to the products themselves when the
  search term is empty or white space only, and otherwise to the products whose
  \<open>codigo\<close> or \<open>nombre\<close>, lowercased, contains the lowercased and trimmed term, or whose
  \<open>descripcion\<close> or \<open>categoria\<close> is present and does; in both cases \<open>paginaActual\<close>
  becomes 1 and \<open>totalPaginas\<close> is computed again from the new list.
\<close>

theorem aplicarFiltros_filtra:
  "(solo_blancos (terminoBusqueda s) \<longrightarrow>
      productosFiltrados (aplicarFiltros s) = productos s)
   \<and> (\<not> solo_blancos (terminoBusqueda s) \<longrightarrow>
      productosFiltrados (aplicarFiltros s) =
        filter (\<lambda>p. contiene (codigo p) (trim_js (toLowerCase (terminoBusqueda s)))
                   \<or> contiene (nombre p) (trim_js (toLowerCase (terminoBusqueda s)))
                   \<or> (\<exists>d. descripcion p = Some d
                          \<and> contiene d (trim_js (toLowerCase (terminoBusqueda s))))
                   \<or> (\<exists>c. categoria p = Some c
                          \<and> contiene c (trim_js (toLowerCase (terminoBusqueda s)))))
               (productos s))
   \<and> paginaActual (aplicarFiltros s) = 1
   \<and> totalPaginas (aplicarFiltros s) =
       \<lceil>(of_nat (length (productosFiltrados (aplicarFiltros s))) :: rat)
          / of_int (productosPorPagina s)\<rceil>"
proof (intro conjI impI)
  assume "solo_blancos (terminoBusqueda s)"
  then have "trim_js (terminoBusqueda s) = []" by (simp add: trim_js_vacio)
  then show "productosFiltrados (aplicarFiltros s) = productos s"
    by (simp add: aplicarFiltros_def calcularTotalPaginas_def Let_def)
next
  let ?t = "trim_js (toLowerCase (terminoBusqueda s))"
  assume nb: "\<not> solo_blancos (terminoBusqueda s)"
  then have t0: "trim_js (terminoBusqueda s) \<noteq> []" by (simp add: trim_js_vacio)
  then have t1: "terminoBusqueda s \<noteq> []" by (auto simp: trim_js_def)
  have "?t \<noteq> []" using nb by (simp add: trim_js_vacio solo_blancos_toLowerCase)
  then have "coincide ?t = (\<lambda>p. contiene (codigo p) ?t \<or> contiene (nombre p) ?t
                   \<or> (\<exists>d. descripcion p = Some d \<and> contiene d ?t)
                   \<or> (\<exists>c. categoria p = Some c \<and> contiene c ?t))"
    by (intro ext coincide_contiene)
  moreover have "productosFiltrados (aplicarFiltros s) = filter (coincide ?t) (productos s)"
    using t0 t1 by (simp add: aplicarFiltros_def calcularTotalPaginas_def Let_def)
  ultimately show "productosFiltrados (aplicarFiltros s) =
        filter (\<lambda>p. contiene (codigo p) ?t \<or> contiene (nombre p) ?t
                   \<or> (\<exists>d. descripcion p = Some d \<and> contiene d ?t)
                   \<or> (\<exists>c. categoria p = Some c \<and> contiene c ?t))
               (productos s)"
    by simp
next
  have "totalPaginas (aplicarFiltros s) \<ge> 1 \<or> totalPaginas (aplicarFiltros s) \<le> 0" by linarith
  show "paginaActual (aplicarFiltros s) = 1"
    by (auto simp: aplicarFiltros_def calcularTotalPaginas_def Let_def)
next
  show "totalPaginas (aplicarFiltros s) =
       \<lceil>(of_nat (length (productosFiltrados (aplicarFiltros s))) :: rat)
          / of_int (productosPorPagina s)\<rceil>"
    by (simp add: aplicarFiltros_def calcularTotalPaginas_def Let_def ceil_div_js_def)
qed

lemma contiene_includes: "contiene campo t = includes_js (toLowerCase campo) t"
  by (simp add: contiene_def includes_js_sublist)

theorem aplicarFiltros_filtra_witness:
  "\<not> solo_blancos (terminoBusqueda
        (estado_inicial\<lparr>productos := siete_productos, terminoBusqueda := '' MOU ''\<rparr>))
   \<and> productosFiltrados
        (aplicarFiltros (estado_inicial\<lparr>productos := siete_productos, terminoBusqueda := '' MOU ''\<rparr>))
       = [producto_ejemplo ''P1'' ''Mouse'' 10]
   \<and> solo_blancos (terminoBusqueda (estado_inicial\<lparr>productos := siete_productos\<rparr>))
   \<and> productosFiltrados (aplicarFiltros (estado_inicial\<lparr>productos := siete_productos\<rparr>))
       = siete_productos"
proof -
  let ?s = "estado_inicial\<lparr>productos := siete_productos, terminoBusqueda := '' MOU ''\<rparr>"
  let ?e = "estado_inicial\<lparr>productos := siete_productos\<rparr>"
  have t: "trim_js (toLowerCase (terminoBusqueda ?s)) = ''mou''"
    by code_simp
  have nb: "\<not> solo_blancos (terminoBusqueda ?s)"
    by (simp add: solo_blancos_def es_blanco_js_def)
  have b: "solo_blancos (terminoBusqueda ?e)"
    by (simp add: solo_blancos_def estado_inicial_def)
  have lows: "toLowerCase ''P1'' = ''p1''" "toLowerCase ''P2'' = ''p2''"
    "toLowerCase ''P3'' = ''p3''" "toLowerCase ''P4'' = ''p4''" "toLowerCase ''P5'' = ''p5''"
    "toLowerCase ''P6'' = ''p6''" "toLowerCase ''P7'' = ''p7''"
    "toLowerCase ''Mouse'' = ''mouse''" "toLowerCase ''Teclado'' = ''teclado''"
    "toLowerCase ''Monitor'' = ''monitor''" "toLowerCase ''Webcam'' = ''webcam''"
    "toLowerCase ''Laptop'' = ''laptop''" "toLowerCase ''Cable'' = ''cable''"
    "toLowerCase ''Base'' = ''base''" "toLowerCase ''Accesorios'' = ''accesorios''"
    by code_simp+
  from aplicarFiltros_filtra [of ?s] nb
  have "productosFiltrados (aplicarFiltros ?s) =
        filter (\<lambda>p. contiene (codigo p) (trim_js (toLowerCase (terminoBusqueda ?s)))
                   \<or> contiene (nombre p) (trim_js (toLowerCase (terminoBusqueda ?s)))
                   \<or> (\<exists>d. descripcion p = Some d
                          \<and> contiene d (trim_js (toLowerCase (terminoBusqueda ?s))))
                   \<or> (\<exists>c. categoria p = Some c
                          \<and> contiene c (trim_js (toLowerCase (terminoBusqueda ?s)))))
               (productos ?s)"
    by blast
  also have "\<dots> = [producto_ejemplo ''P1'' ''Mouse'' 10]"
    unfolding t
    by (simp add: contiene_includes siete_productos_def producto_ejemplo_def lows)
  finally have 1: "productosFiltrados (aplicarFiltros ?s) = [producto_ejemplo ''P1'' ''Mouse'' 10]" .
  from aplicarFiltros_filtra [of ?e] b
  have 2: "productosFiltrados (aplicarFiltros ?e) = siete_productos"
    by simp
  from nb 1 b 2 show ?thesis by blast
qed

section \<open>Selecting a file\<close>

lemma split_js_no_vacio: "split_js sep cs \<noteq> []"
  by (induction cs) (auto split: list.splits)

lemma split_js_sin_separador: "sep \<notin> set cs \<Longrightarrow> split_js sep cs = [cs]"
  by (induction cs) auto

lemma split_js_con_separador: "sep \<in> set cs \<Longrightarrow> \<exists>w v vs. split_js sep cs = w # v # vs"
proof (induction cs)
  case Nil
  then show ?case by simp
next
  case (Cons c cs)
  show ?case
  proof (cases "c = sep")
    case True
    then show ?thesis
      using split_js_no_vacio [of sep cs] by (cases "split_js sep cs") auto
  next
    case False
    then have "sep \<in> set cs" using Cons.prems by simp
    then obtain w v vs where "split_js sep cs = w # v # vs" using Cons.IH by blast
    then show ?thesis using False by simp
  qed
qed

lemma segmento_final_Cons:
  "segmento_final (c # cs) =
     (if CHR ''.'' \<in> set cs then segmento_final cs
      else if c = CHR ''.'' then cs else c # cs)"
proof (cases "CHR ''.'' \<in> set cs")
  case True
  then have "takeWhile (\<lambda>c. c \<noteq> CHR ''.'') (rev cs @ [c]) = takeWhile (\<lambda>c. c \<noteq> CHR ''.'') (rev cs)"
    by (intro takeWhile_append1 [of "CHR ''.''"]) auto
  then show ?thesis using True by (simp add: segmento_final_def)
next
  case False
  then have "takeWhile (\<lambda>c. c \<noteq> CHR ''.'') (rev cs @ [c])
             = rev cs @ takeWhile (\<lambda>c. c \<noteq> CHR ''.'') [c]"
    by (intro takeWhile_append2) auto
  then show ?thesis using False by (simp add: segmento_final_def)
qed

lemma last_split_js: "last (split_js (CHR ''.'') n) = segmento_final n"
proof (induction n)
  case Nil
  then show ?case by (simp add: segmento_final_def)
next
  case (Cons c cs)
  show ?case
  proof (cases "CHR ''.'' \<in> set cs")
    case True
    then obtain w v vs where sp: "split_js (CHR ''.'') cs = w # v # vs"
      using split_js_con_separador by blast
    then have "last (split_js (CHR ''.'') (c # cs)) = last (split_js (CHR ''.'') cs)"
      by simp
    then show ?thesis using True Cons.IH by (simp add: segmento_final_Cons)
  next
    case False
    then have "split_js (CHR ''.'') cs = [cs]" by (rule split_js_sin_separador)
    then show ?thesis using False by (simp add: segmento_final_Cons)
  qed
qed

lemma pop_split_js: "pop_js (split_js (CHR ''.'') n) = Some (segmento_final n)"
proof -
  have "split_js (CHR ''.'') n \<noteq> []" by (rule split_js_no_vacio)
  then have "pop_js (split_js (CHR ''.'') n) = Some (last (split_js (CHR ''.'') n))"
    by (cases "rev (split_js (CHR ''.'') n)") (auto simp: pop_js_def last_rev hd_rev [symmetric])
  then show ?thesis by (simp add: last_split_js)
qed

text \<open>
  C3. For a selected file, \<open>onFileSelected\<close> takes the file (it is stored in
  \<open>archivoSeleccionado\<close>, its name is recorded, and \<open>validacion\<close>, \<open>resultado\<close> and the
  preview flag are reset) exactly when its size is at most 10 * 1024 * 1024 bytes and the
  part of its name after the last dot, lowercased, is \<open>xlsx\<close> or \<open>xls\<close>; when the file
  is not taken, an error message is set and no file is selected.
\<close>

theorem onFileSelected_acepta:
  "(archivo_aceptado f (fst (onFileSelected (Some f) s)) \<longleftrightarrow>
      file_size f \<le> 10 * 1024 * 1024 \<and>
      (toLowerCase (segmento_final (file_name f)) = ''xlsx'' \<or>
       toLowerCase (segmento_final (file_name f)) = ''xls''))
   \<and> (\<not> archivo_aceptado f (fst (onFileSelected (Some f) s)) \<longrightarrow>
        mensajeError (fst (onFileSelected (Some f) s)) \<noteq> [] \<and>
        archivoSeleccionado (fst (onFileSelected (Some f) s)) = None)"
  by (simp add: onFileSelected_def validarArchivo_def limpiarMensajes_def archivo_aceptado_def
      MAX_SIZE_def Let_def pop_split_js)

theorem onFileSelected_acepta_witness:
  "file_size \<lparr>file_name = ''Inventario.XLSX'', file_size = 2048\<rparr> \<le> 10 * 1024 * 1024
   \<and> toLowerCase (segmento_final (file_name \<lparr>file_name = ''Inventario.XLSX'', file_size = 2048\<rparr>))
       = ''xlsx''
   \<and> archivo_aceptado \<lparr>file_name = ''Inventario.XLSX'', file_size = 2048\<rparr>
        (fst (onFileSelected (Some \<lparr>file_name = ''Inventario.XLSX'', file_size = 2048\<rparr>)
                componente_inicial))
   \<and> \<not> archivo_aceptado \<lparr>file_name = ''notas.txt'', file_size = 2048\<rparr>
        (fst (onFileSelected (Some \<lparr>file_name = ''notas.txt'', file_size = 2048\<rparr>)
                componente_inicial))
   \<and> mensajeError (fst (onFileSelected (Some \<lparr>file_name = ''notas.txt'', file_size = 2048\<rparr>)
                componente_inicial)) \<noteq> []
   \<and> archivoSeleccionado (fst (onFileSelected (Some \<lparr>file_name = ''notas.txt'', file_size = 2048\<rparr>)
                componente_inicial)) = None"
proof -
  let ?f = "\<lparr>file_name = ''Inventario.XLSX'', file_size = 2048\<rparr>"
  let ?g = "\<lparr>file_name = ''notas.txt'', file_size = 2048\<rparr>"
  have a: "file_size ?f \<le> 10 * 1024 * 1024" by simp
  have b: "toLowerCase (segmento_final (file_name ?f)) = ''xlsx''" by code_simp
  have c: "toLowerCase (segmento_final (file_name ?g)) \<noteq> ''xlsx''
           \<and> toLowerCase (segmento_final (file_name ?g)) \<noteq> ''xls''" by code_simp
  note tf = onFileSelected_acepta [of ?f componente_inicial]
  note tg = onFileSelected_acepta [of ?g componente_inicial]
  from tf a b have 1: "archivo_aceptado ?f (fst (onFileSelected (Some ?f) componente_inicial))"
    by blast
  from tg c have 2: "\<not> archivo_aceptado ?g (fst (onFileSelected (Some ?g) componente_inicial))"
    by blast
  with tg have 3: "mensajeError (fst (onFileSelected (Some ?g) componente_inicial)) \<noteq> [] \<and>
        archivoSeleccionado (fst (onFileSelected (Some ?g) componente_inicial)) = None"
    by blast
  from a b 1 2 3 show ?thesis by blast
qed

section \<open>Starting the upload\<close>

text \<open>What \<open>cargarArchivo\<close> itself does: when a guard fails only the warning is set,
  and the timer is started only with a file selected and a valid validation stored.\<close>

lemma cargarArchivo_sin_archivo:
  "archivoSeleccionado s = None \<Longrightarrow>
   cargarArchivo confirmar s = (s\<lparr>mensajeAdvertencia := ''Por favor selecciona un archivo''\<rparr>, [])"
  by (simp add: cargarArchivo_def)

lemma cargarArchivo_sin_validar:
  "archivoSeleccionado s = Some f \<Longrightarrow> \<not> validacion_valida s \<Longrightarrow>
   cargarArchivo confirmar s = (s\<lparr>mensajeAdvertencia := ''Primero valida el archivo''\<rparr>, [])"
  by (simp add: cargarArchivo_def)

lemma cargarArchivo_guarda_falla:
  assumes "archivoSeleccionado s = None \<or> \<not> validacion_valida s"
  shows "\<exists>m. m \<noteq> [] \<and> cargarArchivo confirmar s = (s\<lparr>mensajeAdvertencia := m\<rparr>, [])"
proof (cases "archivoSeleccionado s")
  case None
  then show ?thesis using cargarArchivo_sin_archivo [of s confirmar] by blast
next
  case (Some f)
  then have "\<not> validacion_valida s" using assms by simp
  then show ?thesis using cargarArchivo_sin_validar [OF Some, of confirmar] by blast
qed

lemma cargarArchivo_guarda_falla_marco:
  assumes "archivoSeleccionado s = None \<or> \<not> validacion_valida s"
  shows "snd (cargarArchivo confirmar s) = []
     \<and> cargando (fst (cargarArchivo confirmar s)) = cargando s
     \<and> progreso (fst (cargarArchivo confirmar s)) = progreso s
     \<and> resultado (fst (cargarArchivo confirmar s)) = resultado s"
proof -
  obtain m where "cargarArchivo confirmar s = (s\<lparr>mensajeAdvertencia := m\<rparr>, [])"
    using cargarArchivo_guarda_falla [OF assms] by blast
  then show ?thesis by simp
qed

lemma cargarArchivo_efectos:
  "snd (cargarArchivo confirmar s) = [] \<or> snd (cargarArchivo confirmar s) = [Temporizador 100]"
  by (simp add: cargarArchivo_def split: option.splits)

lemma cargarArchivo_temporizador:
  assumes "snd (cargarArchivo confirmar s) = [Temporizador 100]"
  shows "\<exists>f. archivoSeleccionado s = Some f \<and> validacion_valida s \<and>
             archivoSeleccionado (fst (cargarArchivo confirmar s)) = Some f"
proof (cases "archivoSeleccionado s")
  case None
  then show ?thesis using assms by (simp add: cargarArchivo_def)
next
  case (Some f)
  show ?thesis
  proof (cases "validacion_valida s \<and> confirmar")
    case True
    then show ?thesis using Some by (simp add: cargarArchivo_def limpiarMensajes_def)
  next
    case False
    then show ?thesis using assms Some by (auto simp: cargarArchivo_def split: if_splits)
  qed
qed

lemma validacion_valida_Some:
  "validacion_valida s = (\<exists>v. validacion s = Some v \<and> valido v)"
  by (simp add: validacion_valida_def split: option.splits)

text \<open>The earlier version of the component calls the service in the same step as its
  guards, so there the call is made only for a selected file with a valid validation.\<close>

lemma previo_llama:
  assumes "LlamarCargarExcel f \<in> set (snd (cargarArchivo_previo confirmar s))"
  shows "archivoSeleccionado s = Some f \<and> validacion_valida s"
proof (cases "archivoSeleccionado s = None \<or> \<not> validacion_valida s")
  case True
  then show ?thesis using assms by (simp add: cargarArchivo_previo_def)
next
  case False
  then obtain g where g: "archivoSeleccionado s = Some g" by auto
  show ?thesis
  proof (cases confirmar)
    case True
    then show ?thesis using assms False g by (simp add: cargarArchivo_previo_def Let_def)
  next
    case c: False
    then show ?thesis using assms False by (simp add: cargarArchivo_previo_def)
  qed
qed

text \<open>In the current version the call is made by the timer's callback, a tenth of a
  second after the guards, and \<open>ejecutarCarga\<close> asks again only for a selected file.\<close>

lemma efectos_diferido:
  "snd (cargarArchivo_diferido s) =
     [Intervalo 200, AbrirWebSocket] @
     (case archivoSeleccionado s of None \<Rightarrow> [] | Some f \<Rightarrow> [LlamarCargarExcel f])"
  by (simp add: cargarArchivo_diferido_def simularProgresoGradual_def conectarWebSocket_def
      ejecutarCarga_def split: option.splits)

lemma ejecutarCarga_solo_pide_archivo:
  "archivoSeleccionado s = Some f \<Longrightarrow> ejecutarCarga s = (s, [LlamarCargarExcel f])"
  by (simp add: ejecutarCarga_def)

lemma estado_antes_del_temporizador:
  "fst (atender_todos antes_del_temporizador componente_inicial) =
     componente_inicial
       \<lparr>archivoSeleccionado := Some archivo_b, nombreArchivo := ''b.xlsx'',
        validacion := Some validacion_rechazada, cargando := True,
        mensajeError := ''Archivo con errores - Fila 2: precio negativo''\<rparr>"
proof -
  have low: "toLowerCase ''xlsx'' = ''xlsx''" by code_simp
  show ?thesis
    by (simp add: antes_del_temporizador_def componente_inicial_def onFileSelected_def
        validarArchivo_def validarArchivo_next_def cargarArchivo_def limpiarMensajes_def
        validacion_valida_def validacion_ejemplo_def validacion_rechazada_def
        archivo_a_def archivo_b_def MAX_SIZE_def pop_js_def low Let_def)
qed

lemma efectos_antes_del_temporizador:
  "snd (atender_todos antes_del_temporizador componente_inicial) =
     [LlamarValidarExcel archivo_a, LlamarValidarExcel archivo_b, Temporizador 100]"
proof -
  have low: "toLowerCase ''xlsx'' = ''xlsx''" by code_simp
  show ?thesis
    by (simp add: antes_del_temporizador_def componente_inicial_def onFileSelected_def
        validarArchivo_def validarArchivo_next_def cargarArchivo_def limpiarMensajes_def
        validacion_valida_def validacion_ejemplo_def validacion_rechazada_def
        archivo_a_def archivo_b_def MAX_SIZE_def pop_js_def low Let_def)
qed

text \<open>
  C1, at a validation response that arrives between the confirmation and the timer:
  file b is selected, the validation stored when the user confirms is valid (it is the
  answer for file a), the timer is started, and the answer for b, not valid, is stored
  before the timer expires. The callback of the timer then calls \<open>cargarExcel\<close> for b
  although the last validation stored has \<open>valido\<close> false.
\<close>

theorem carga_con_validacion_rechazada:
  "snd (atender_todos antes_del_temporizador componente_inicial) =
     [LlamarValidarExcel archivo_a, LlamarValidarExcel archivo_b, Temporizador 100]
   \<and> archivoSeleccionado (fst (atender_todos antes_del_temporizador componente_inicial))
       = Some archivo_b
   \<and> validacion (fst (atender_todos antes_del_temporizador componente_inicial))
       = Some validacion_rechazada
   \<and> \<not> valido validacion_rechazada
   \<and> \<not> validacion_valida (fst (atender_todos antes_del_temporizador componente_inicial))
   \<and> snd (atender VenceTemporizadorCarga
             (fst (atender_todos antes_del_temporizador componente_inicial)))
       = [Intervalo 200, AbrirWebSocket, LlamarCargarExcel archivo_b]"
proof -
  let ?s = "fst (atender_todos antes_del_temporizador componente_inicial)"
  have a: "archivoSeleccionado ?s = Some archivo_b"
    by (simp add: estado_antes_del_temporizador)
  have v: "validacion ?s = Some validacion_rechazada"
    by (simp add: estado_antes_del_temporizador)
  have n: "\<not> valido validacion_rechazada"
    by (simp add: validacion_rechazada_def)
  have nv: "\<not> validacion_valida ?s"
    using v n by (simp add: validacion_valida_def)
  have "snd (atender VenceTemporizadorCarga ?s)
        = [Intervalo 200, AbrirWebSocket, LlamarCargarExcel archivo_b]"
    using a by (simp add: efectos_diferido)
  with efectos_antes_del_temporizador a v n nv show ?thesis by blast
qed

section \<open>The simulated progress\<close>

lemma tick_en_cero:
  assumes "progreso s = 0" and "0 \<le> inc" and "inc < 1"
  shows "progreso ((tick_simulacion inc ^^ n) s) = 0"
proof (induction n)
  case 0
  then show ?case using assms(1) by simp
next
  case (Suc n)
  have "\<lfloor>inc\<rfloor> = 0" using assms(2,3) by (simp add: floor_eq_iff)
  then show ?case using Suc by (simp add: tick_simulacion_def Let_def)
qed

lemma incremento_menor_que_uno:
  assumes "validacion s = Some v" and "80 < total_filas v"
  shows "0 \<le> incrementoPorCiclo s \<and> incrementoPorCiclo s < 1"
proof -
  let ?t = "max 8000 (min (total_filas v * 200) 30000)"
  have t: "16000 < ?t" using assms(2) by simp
  have "incrementoPorCiclo s = 80 / (of_int ?t / 200)"
    using assms by (simp add: incrementoPorCiclo_def Let_def)
  also have "\<dots> = 16000 / of_int ?t" by simp
  finally have eq: "incrementoPorCiclo s = 16000 / of_int ?t" .
  have "(16000 :: rat) < of_int ?t" using t by linarith
  then show ?thesis unfolding eq by simp
qed

lemma simulacion_estancada_general:
  assumes "validacion s = Some v" and "80 < total_filas v"
  shows "progreso (ticks n (fst (simularProgresoGradual s))) = 0"
  using incremento_menor_que_uno [OF assms]
  by (simp add: ticks_def simularProgresoGradual_def tick_en_cero)

text \<open>What does hold of the simulation: the increment lies in (0, 2], a tick never takes
  the progress above 85 and never lowers a whole-numbered progress. With an increment
  from 1 up to, not including, 2 the rounding leaves exactly one point a tick.\<close>

lemma incremento_acotado: "0 < incrementoPorCiclo s \<and> incrementoPorCiclo s \<le> 2"
proof -
  let ?tf = "case validacion s of None \<Rightarrow> 10
             | Some v \<Rightarrow> if total_filas v = 0 then 10 else total_filas v"
  let ?t = "max 8000 (min (?tf * 200) 30000)"
  have "incrementoPorCiclo s = 80 / (of_int ?t / 200)"
    by (simp add: incrementoPorCiclo_def Let_def)
  then have eq: "incrementoPorCiclo s = 16000 / of_int ?t" by simp
  have "8000 \<le> ?t" by simp
  then have "(8000 :: rat) \<le> of_int ?t" by linarith
  then show ?thesis unfolding eq by (simp add: field_simps)
qed

lemma tick_acotado:
  assumes "inc \<le> 2" and "progreso s \<le> 85"
  shows "progreso (tick_simulacion inc s) \<le> 85"
proof (cases "progreso s < 80")
  case True
  have "of_int \<lfloor>progreso s + inc\<rfloor> \<le> progreso s + inc" by (rule of_int_floor_le)
  then show ?thesis using True assms(1) by (simp add: tick_simulacion_def Let_def)
next
  case False
  then show ?thesis by (simp add: tick_simulacion_def)
qed

lemma tick_no_decrece:
  assumes "0 \<le> inc" and "progreso s \<in> \<int>" and "progreso s \<le> 85"
  shows "progreso s \<le> progreso (tick_simulacion inc s)
         \<and> progreso (tick_simulacion inc s) \<in> \<int>"
proof (cases "progreso s < 80")
  case True
  obtain k :: int where k: "progreso s = of_int k" using assms(2) by (auto elim: Ints_cases)
  have "k \<le> \<lfloor>of_int k + inc\<rfloor>" using assms(1) by (simp add: le_floor_iff)
  then have "(of_int k :: rat) \<le> of_int \<lfloor>of_int k + inc\<rfloor>" by (simp only: of_int_le_iff)
  then show ?thesis using True k by (simp add: tick_simulacion_def Let_def)
next
  case False
  then show ?thesis using assms(3) by (simp add: tick_simulacion_def)
qed

lemma tick_suma_uno:
  assumes "progreso t = of_nat n" and "n < 80" and "1 \<le> inc" and "inc < 2"
  shows "progreso (tick_simulacion inc t) = of_nat (Suc n)"
proof -
  have "\<lfloor>of_nat n + inc\<rfloor> = int n + 1"
    using assms(3,4) by (simp add: floor_eq_iff)
  moreover have "(of_nat n :: rat) < 80" using assms(2) by simp
  ultimately show ?thesis using assms(1) by (simp add: tick_simulacion_def Let_def)
qed

lemma tick_de_uno_en_uno:
  assumes "progreso s = 0" and "1 \<le> inc" and "inc < 2" and "n \<le> 80"
  shows "progreso ((tick_simulacion inc ^^ n) s) = of_nat n"
  using assms(4)
proof (induction n)
  case 0
  then show ?case using assms(1) by simp
next
  case (Suc n)
  then have ih: "progreso ((tick_simulacion inc ^^ n) s) = of_nat n" and n: "n < 80"
    by simp_all
  have "progreso (tick_simulacion inc ((tick_simulacion inc ^^ n) s)) = of_nat (Suc n)"
    using ih n assms(2,3) by (rule tick_suma_uno)
  then show ?case by simp
qed

lemma simulacion_50_filas:
  "progreso (ticks 51 (fst (simularProgresoGradual (componente_validado 50)))) = 51"
proof -
  let ?s = "fst (simularProgresoGradual (componente_validado 50))"
  have inc: "incrementoPorCiclo (componente_validado 50) = 8 / 5"
    by (simp add: incrementoPorCiclo_def componente_validado_def componente_inicial_def
        validacion_ejemplo_def Let_def)
  have i: "intervaloSimulacion ?s = Some (8 / 5)"
    by (simp add: simularProgresoGradual_def inc)
  have p: "progreso ?s = 0" by (simp add: simularProgresoGradual_def)
  have "progreso ((tick_simulacion (8 / 5) ^^ 51) ?s) = of_nat 51"
    using p by (rule tick_de_uno_en_uno) simp_all
  then show ?thesis by (simp add: ticks_def i)
qed

lemma cien_con_la_respuesta:
  "progreso (fst (ejecutarCarga_next res s)) = 100
   \<and> (inc \<le> 2 \<and> progreso s \<le> 85 \<longrightarrow> progreso (tick_simulacion inc s) \<noteq> 100)"
  using tick_acotado [of inc s] by (auto simp: ejecutarCarga_next_def)

text \<open>The interval is stopped two seconds after the response: a tick that runs in
  between finds the progress at 100 and sets it to 85.\<close>

lemma tick_tras_la_respuesta:
  "progreso (tick_simulacion inc (fst (ejecutarCarga_next res s))) = 85"
  by (simp add: ejecutarCarga_next_def tick_simulacion_def)

text \<open>
  C8, at an upload of 100 validated rows: the increment of the simulation is 0.8 a
  tick, each tick rounds the sum down, and the progress stays at 0 however many ticks
  run. It never reaches the value 85 at which the simulation is meant to hold.
\<close>

theorem simulacion_estancada:
  "progreso (ticks n (fst (simularProgresoGradual (componente_validado 100)))) = 0"
proof -
  have "validacion (componente_validado 100) = Some (validacion_ejemplo 100)"
    by (simp add: componente_validado_def componente_inicial_def)
  moreover have "80 < total_filas (validacion_ejemplo 100)"
    by (simp add: validacion_ejemplo_def)
  ultimately show ?thesis by (rule simulacion_estancada_general)
qed

section \<open>Saving a product\<close>

text \<open>A price of 0 is not negative, and \<open>guardarProducto\<close> refuses it: the form
  reports that the price must be greater than 0 and no request is issued.\<close>

theorem guardarProducto_precio_cero_counterexample:
  "precio (productoForm (estado_inicial\<lparr>productoForm := producto_ejemplo ''P1'' ''Mouse'' 0\<rparr>)) \<ge> 0
   \<and> cantidad (productoForm (estado_inicial\<lparr>productoForm := producto_ejemplo ''P1'' ''Mouse'' 0\<rparr>)) \<ge> 0
   \<and> trim_js (codigo (productoForm (estado_inicial\<lparr>productoForm := producto_ejemplo ''P1'' ''Mouse'' 0\<rparr>))) \<noteq> []
   \<and> trim_js (nombre (productoForm (estado_inicial\<lparr>productoForm := producto_ejemplo ''P1'' ''Mouse'' 0\<rparr>))) \<noteq> []
   \<and> errores (fst (guardarProducto (estado_inicial\<lparr>productoForm := producto_ejemplo ''P1'' ''Mouse'' 0\<rparr>)))
       = [''El precio debe ser mayor a 0'']
   \<and> snd (guardarProducto (estado_inicial\<lparr>productoForm := producto_ejemplo ''P1'' ''Mouse'' 0\<rparr>)) = None"
  by (simp add: guardarProducto_def producto_ejemplo_def estado_inicial_def trim_js_def
      es_blanco_js_def Let_def)

text \<open>
  C6, as the code has it: a product whose \<open>precio\<close> is greater than 0, whose
  \<open>cantidad\<close> is not negative and whose \<open>codigo\<close> and \<open>nombre\<close> are not empty after
  trimming passes the checks of \<open>guardarProducto\<close>: \<open>errores\<close> stays empty and the
  request is issued, an update when the form is editing a product with an id, a
  creation otherwise.
\<close>

theorem guardarProducto_valido:
  assumes "precio (productoForm s) > 0"
    and "cantidad (productoForm s) \<ge> 0"
    and "trim_js (codigo (productoForm s)) \<noteq> []"
    and "trim_js (nombre (productoForm s)) \<noteq> []"
  shows "errores (fst (guardarProducto s)) = []
     \<and> snd (guardarProducto s) =
         Some (case id_producto (productoForm s) of
                 None \<Rightarrow> CrearProducto (productoForm s)
               | Some i \<Rightarrow> if editando s \<and> i \<noteq> 0
                           then ActualizarProducto i (productoForm s)
                           else CrearProducto (productoForm s))"
proof -
  have c: "codigo (productoForm s) \<noteq> []" using assms(3) by (auto simp: trim_js_def)
  have n: "nombre (productoForm s) \<noteq> []" using assms(4) by (auto simp: trim_js_def)
  have p: "\<not> (precio (productoForm s) = 0 \<or> precio (productoForm s) \<le> 0)"
    using assms(1) by simp
  have q: "\<not> cantidad (productoForm s) < 0" using assms(2) by simp
  show ?thesis
    using c n p q assms(3,4)
    by (simp add: guardarProducto_def Let_def split: option.splits)
qed

theorem guardarProducto_valido_witness:
  "precio (productoForm (estado_inicial\<lparr>productoForm := producto_ejemplo ''P1'' ''Mouse'' 10\<rparr>)) > 0
   \<and> errores (fst (guardarProducto (estado_inicial\<lparr>productoForm := producto_ejemplo ''P1'' ''Mouse'' 10\<rparr>))) = []
   \<and> snd (guardarProducto (estado_inicial\<lparr>productoForm := producto_ejemplo ''P1'' ''Mouse'' 10\<rparr>))
       = Some (CrearProducto (producto_ejemplo ''P1'' ''Mouse'' 10))"
proof -
  let ?s = "estado_inicial\<lparr>productoForm := producto_ejemplo ''P1'' ''Mouse'' 10\<rparr>"
  have f: "productoForm ?s = producto_ejemplo ''P1'' ''Mouse'' 10" by simp
  have 1: "precio (productoForm ?s) > 0" by (simp add: producto_ejemplo_def)
  have 2: "cantidad (productoForm ?s) \<ge> 0" by (simp add: producto_ejemplo_def)
  have 3: "trim_js (codigo (productoForm ?s)) \<noteq> []"
    by (simp add: producto_ejemplo_def trim_js_def es_blanco_js_def)
  have 4: "trim_js (nombre (productoForm ?s)) \<noteq> []"
    by (simp add: producto_ejemplo_def trim_js_def es_blanco_js_def)
  have 5: "id_producto (producto_ejemplo ''P1'' ''Mouse'' 10) = None"
    by (simp add: producto_ejemplo_def)
  from guardarProducto_valido [OF 1 2 3 4] 1 show ?thesis
    by (simp add: 5)
qed

section \<open>The Excel requests of the two services\<close>

text \<open>The two services name the form field of the uploaded file differently.\<close>

theorem servicios_campo_distinto_counterexample:
  "sufijo_ruta ''http://localhost:8000/api''
       (url (cargarExcel_entorno ''http://localhost:8000/api'' archivo_ejemplo))
     = sufijo_ruta apiUrl (url (cargarExcel archivo_ejemplo))
   \<and> campos_formulario (cargarExcel_entorno ''http://localhost:8000/api'' archivo_ejemplo)
       = [''archivo'']
   \<and> campos_formulario (cargarExcel archivo_ejemplo) = [''file'']
   \<and> campos_formulario (cargarExcel_entorno ''http://localhost:8000/api'' archivo_ejemplo)
       \<noteq> campos_formulario (cargarExcel archivo_ejemplo)"
  by (simp add: cargarExcel_entorno_def cargarExcel_def campos_formulario_def sufijo_ruta_def
      apiUrl_def)

text \<open>
  C10, as the code has it: for every file, \<open>validarExcel\<close> and \<open>cargarExcel\<close> of the
  two service classes post to the same path after the base address
  (\<open>/productos/validar-excel\<close>, \<open>/productos/cargar-excel\<close>) a form with the file as its
  one entry; the entry is named \<open>archivo\<close> in the class that reads the base address
  from the environment and \<open>file\<close> in the other.
\<close>

theorem servicios_excel_rutas:
  "sufijo_ruta base (url (validarExcel_entorno base f)) = Some ''/productos/validar-excel''
   \<and> sufijo_ruta apiUrl (url (validarExcel f)) = Some ''/productos/validar-excel''
   \<and> sufijo_ruta base (url (cargarExcel_entorno base f)) = Some ''/productos/cargar-excel''
   \<and> sufijo_ruta apiUrl (url (cargarExcel f)) = Some ''/productos/cargar-excel''
   \<and> metodo (validarExcel_entorno base f) = metodo (validarExcel f)
   \<and> metodo (cargarExcel_entorno base f) = metodo (cargarExcel f)
   \<and> cuerpo (validarExcel_entorno base f) = [(''archivo'', f)]
   \<and> cuerpo (cargarExcel_entorno base f) = [(''archivo'', f)]
   \<and> cuerpo (validarExcel f) = [(''file'', f)]
   \<and> cuerpo (cargarExcel f) = [(''file'', f)]"
  by (simp add: validarExcel_entorno_def cargarExcel_entorno_def validarExcel_def
      cargarExcel_def sufijo_ruta_def)

section \<open>The constraints of the table\<close>

lemma restricciones_fila_valida: "restricciones_fila r = None \<Longrightarrow> fila_valida r"
  by (auto simp: restricciones_fila_def fila_valida_def check_cantidad_def check_precio_def
      check_codigo_no_vacio_def check_nombre_no_vacio_def split: if_splits)

lemma restricciones_fila_iff:
  "(restricciones_fila r = None) = (col_id r \<noteq> None \<and> fila_valida r)"
  by (auto simp: restricciones_fila_def fila_valida_def check_cantidad_def check_precio_def
      check_codigo_no_vacio_def check_nombre_no_vacio_def)

lemma restricciones_unicas_codigo:
  "restricciones_unicas otras r = None \<Longrightarrow> col_codigo r \<notin> set (map col_codigo otras)"
  by (auto simp: restricciones_unicas_def split: if_splits)

lemma restricciones_unicas_iff:
  "(restricciones_unicas otras r = None) =
     (col_id r \<notin> col_id ` set otras \<and> col_codigo r \<notin> col_codigo ` set otras)"
proof -
  have "(\<exists>x \<in> set otras. col_id x = col_id r) = (col_id r \<in> col_id ` set otras)"
    by (metis imageE image_eqI)
  moreover have "(\<exists>x \<in> set otras. col_codigo x = col_codigo r)
                 = (col_codigo r \<in> col_codigo ` set otras)"
    by (metis imageE image_eqI)
  ultimately show ?thesis by (simp add: restricciones_unicas_def)
qed

lemma fila_nueva_siguiente:
  "fila_nueva ahora st (if ins_id st = None then k + 1 else k) = fila_nueva ahora st (k + 1)"
  by (cases "ins_id st") (simp_all add: fila_nueva_def por_defecto_def)

lemma insertar_aceptado_iff:
  "(fst (insertar ahora st db) = None) =
     (restricciones_fila (fila_nueva ahora st (secuencia db + 1)) = None \<and>
      restricciones_unicas (filas db) (fila_nueva ahora st (secuencia db + 1)) = None)"
  using fila_nueva_siguiente [of ahora st "secuencia db"]
  by (cases "ins_id st") (auto simp: insertar_def Let_def split: option.splits)

lemma insertar_filas:
  "filas (snd (insertar ahora st db)) =
     (if fst (insertar ahora st db) = None
      then filas db @ [fila_nueva ahora st (secuencia db + 1)]
      else filas db)"
  using fila_nueva_siguiente [of ahora st "secuencia db"]
  by (cases "ins_id st") (auto simp: insertar_def Let_def split: option.splits)

lemma invariante_insertar:
  assumes "invariante_tabla db"
  shows "invariante_tabla (snd (insertar ahora st db))"
proof (cases "fst (insertar ahora st db) = None")
  case False
  then have "filas (snd (insertar ahora st db)) = filas db"
    by (simp add: insertar_filas del: not_None_eq)
  then show ?thesis using assms by (simp add: invariante_tabla_def)
next
  case True
  let ?n = "fila_nueva ahora st (secuencia db + 1)"
  have ok: "restricciones_fila ?n = None" "restricciones_unicas (filas db) ?n = None"
    using True by (simp_all add: insertar_aceptado_iff)
  have "fila_valida ?n"
    using ok(1) by (rule restricciones_fila_valida)
  moreover have "col_codigo ?n \<notin> set (map col_codigo (filas db))"
    using ok(2) by (rule restricciones_unicas_codigo)
  ultimately show ?thesis using assms True by (simp add: invariante_tabla_def insertar_filas)
qed

lemma actualizar_filas_invariante:
  assumes "actualizar_filas ahora u hechas rs = Inr fs"
    and "\<forall>r \<in> set (hechas @ rs). fila_valida r"
    and "distinct (map col_codigo (hechas @ rs))"
  shows "(\<forall>r \<in> set fs. fila_valida r) \<and> distinct (map col_codigo fs)"
  using assms
proof (induction rs arbitrary: hechas)
  case Nil
  then show ?case by simp
next
  case (Cons r rs)
  show ?case
  proof (cases "donde u r")
    case False
    then have "actualizar_filas ahora u (hechas @ [r]) rs = Inr fs"
      using Cons.prems(1) by simp
    then show ?thesis using Cons.IH [of "hechas @ [r]"] Cons.prems(2,3) by simp
  next
    case True
    let ?n = "actualizar_fecha_modificacion ahora (aplicar_set u r)"
    have a: "restricciones_fila ?n = None"
      using Cons.prems(1) True by (simp add: Let_def split: option.splits)
    have b: "restricciones_unicas (hechas @ rs) ?n = None"
      using Cons.prems(1) True a by (simp add: Let_def split: option.splits)
    have c: "actualizar_filas ahora u (hechas @ [?n]) rs = Inr fs"
      using Cons.prems(1) True a b by (simp add: Let_def)
    have v: "fila_valida ?n" using a by (rule restricciones_fila_valida)
    have d: "col_codigo ?n \<notin> set (map col_codigo (hechas @ rs))"
      using b by (rule restricciones_unicas_codigo)
    have "\<forall>x \<in> set ((hechas @ [?n]) @ rs). fila_valida x"
      using Cons.prems(2) v by auto
    moreover have "distinct (map col_codigo ((hechas @ [?n]) @ rs))"
      using Cons.prems(3) d by auto
    ultimately show ?thesis using Cons.IH [OF c] by blast
  qed
qed

lemma invariante_actualizar:
  assumes "invariante_tabla db"
  shows "invariante_tabla (snd (actualizar ahora u db))"
proof (cases "actualizar_filas ahora u [] (filas db)")
  case (Inl e)
  then show ?thesis using assms by (simp add: actualizar_def)
next
  case (Inr fs)
  then have "(\<forall>r \<in> set fs. fila_valida r) \<and> distinct (map col_codigo fs)"
    using assms actualizar_filas_invariante [of ahora u "[]" "filas db" fs]
    by (simp add: invariante_tabla_def)
  then show ?thesis using Inr by (simp add: actualizar_def invariante_tabla_def)
qed

lemma actualizar_rechazado: "fst (actualizar ahora u db) \<noteq> None \<Longrightarrow> snd (actualizar ahora u db) = db"
  by (simp add: actualizar_def split: sum.splits)

lemma actualizar_filas_posiciones:
  "actualizar_filas ahora u hechas rs = Inr fs \<Longrightarrow>
   fs = hechas @ map (\<lambda>r. if donde u r
                            then actualizar_fecha_modificacion ahora (aplicar_set u r)
                            else r) rs"
proof (induction rs arbitrary: hechas)
  case Nil
  then show ?case by simp
next
  case (Cons r rs)
  show ?case
  proof (cases "donde u r")
    case False
    then have "actualizar_filas ahora u (hechas @ [r]) rs = Inr fs"
      using Cons.prems by simp
    then show ?thesis using Cons.IH [of "hechas @ [r]"] False by simp
  next
    case True
    let ?n = "actualizar_fecha_modificacion ahora (aplicar_set u r)"
    have a: "restricciones_fila ?n = None"
      using Cons.prems True by (simp add: Let_def split: option.splits)
    have b: "restricciones_unicas (hechas @ rs) ?n = None"
      using Cons.prems True a by (simp add: Let_def split: option.splits)
    have "actualizar_filas ahora u (hechas @ [?n]) rs = Inr fs"
      using Cons.prems True a b by (simp add: Let_def)
    then show ?thesis using Cons.IH [of "hechas @ [?n]"] True by simp
  qed
qed

lemma actualizar_aceptado:
  assumes "actualizar ahora u db = (None, db')"
  shows "filas db' = map (\<lambda>r. if donde u r
                            then actualizar_fecha_modificacion ahora (aplicar_set u r)
                            else r) (filas db)"
proof (cases "actualizar_filas ahora u [] (filas db)")
  case (Inl e)
  then show ?thesis using assms by (simp add: actualizar_def)
next
  case (Inr fs)
  then have "db' = db\<lparr>filas := fs\<rparr>" using assms by (simp add: actualizar_def)
  then show ?thesis using actualizar_filas_posiciones [OF Inr] by simp
qed

lemma actualizar_aceptado_propuestas:
  assumes "fst (actualizar ahora u db) = None"
  shows "filas (snd (actualizar ahora u db)) = filas_propuestas ahora u (filas db)"
proof -
  have "actualizar ahora u db = (None, snd (actualizar ahora u db))"
    using assms by (simp add: prod_eq_iff)
  then show ?thesis unfolding filas_propuestas_def by (rule actualizar_aceptado)
qed

lemma actualizar_filas_comprueba:
  "actualizar_filas ahora u hechas rs = Inr fs \<Longrightarrow> r \<in> set rs \<Longrightarrow> donde u r \<Longrightarrow>
   restricciones_fila (actualizar_fecha_modificacion ahora (aplicar_set u r)) = None"
proof (induction rs arbitrary: hechas)
  case Nil
  then show ?case by simp
next
  case (Cons x xs)
  show ?case
  proof (cases "donde u x")
    case False
    then have "actualizar_filas ahora u (hechas @ [x]) xs = Inr fs"
      using Cons.prems(1) by simp
    moreover have "r \<in> set xs" using Cons.prems(2,3) False by auto
    ultimately show ?thesis using Cons.IH Cons.prems(3) by blast
  next
    case True
    let ?n = "actualizar_fecha_modificacion ahora (aplicar_set u x)"
    have a: "restricciones_fila ?n = None"
      using Cons.prems(1) True by (simp add: Let_def split: option.splits)
    have b: "restricciones_unicas (hechas @ xs) ?n = None"
      using Cons.prems(1) True a by (simp add: Let_def split: option.splits)
    have c: "actualizar_filas ahora u (hechas @ [?n]) xs = Inr fs"
      using Cons.prems(1) True a b by (simp add: Let_def)
    show ?thesis
    proof (cases "r = x")
      case True
      then show ?thesis using a by simp
    next
      case False
      then have "r \<in> set xs" using Cons.prems(2) by simp
      then show ?thesis using Cons.IH [OF c] Cons.prems(3) by blast
    qed
  qed
qed

lemma actualizar_fila_invalida:
  assumes "r \<in> set (filas db)" and "donde u r"
    and "\<not> fila_valida (actualizar_fecha_modificacion ahora (aplicar_set u r))"
  shows "fst (actualizar ahora u db) \<noteq> None"
proof (cases "actualizar_filas ahora u [] (filas db)")
  case (Inl e)
  then show ?thesis by (simp add: actualizar_def)
next
  case (Inr fs)
  then have "restricciones_fila (actualizar_fecha_modificacion ahora (aplicar_set u r)) = None"
    using assms(1,2) by (rule actualizar_filas_comprueba)
  then show ?thesis using assms(3) by (simp add: restricciones_fila_iff)
qed

text \<open>A code of one tab character passes \<open>check_codigo_no_vacio\<close>, since \<open>TRIM\<close>
  removes spaces only: the row is stored, and its code is empty once white space of
  every kind is trimmed.\<close>

theorem codigo_tabulador_counterexample:
  "invariante_tabla bd_inicial
   \<and> fst (insertar 1 insert_tabulador bd_inicial) = None
   \<and> filas (snd (insertar 1 insert_tabulador bd_inicial)) = [fila_nueva 1 insert_tabulador 1]
   \<and> col_codigo (fila_nueva 1 insert_tabulador 1) = Some [CHR 0x09]
   \<and> trim_js [CHR 0x09] = []
   \<and> \<not> fila_valida_blancos (fila_nueva 1 insert_tabulador 1)"
proof -
  have c: "col_codigo (fila_nueva 1 insert_tabulador 1) = Some [CHR 0x09]"
    by (simp add: fila_nueva_def insert_tabulador_def insert_semilla_def por_defecto_def)
  have t: "trim_js [CHR 0x09] = []"
    by (simp add: trim_js_def es_blanco_js_def)
  have a: "fst (insertar 1 insert_tabulador bd_inicial) = None"
    by (simp add: insertar_aceptado_iff restricciones_fila_def restricciones_unicas_def
        check_cantidad_def check_precio_def check_codigo_no_vacio_def
        check_nombre_no_vacio_def sql_trim_def fila_nueva_def insert_tabulador_def
        insert_semilla_def por_defecto_def bd_inicial_def)
  have f: "filas (snd (insertar 1 insert_tabulador bd_inicial)) = [fila_nueva 1 insert_tabulador 1]"
    using a by (simp add: insertar_filas bd_inicial_def)
  have i: "invariante_tabla bd_inicial"
    by (simp add: invariante_tabla_def bd_inicial_def)
  have n: "\<not> fila_valida_blancos (fila_nueva 1 insert_tabulador 1)"
    using c t by (auto simp: fila_valida_blancos_def)
  from i a f c t n show ?thesis by blast
qed

text \<open>
  C2, as the table has it: every row of \<open>productos\<close> has \<open>cantidad\<close> and \<open>precio\<close>
  not negative, \<open>codigo\<close> and \<open>nombre\<close> not empty after \<open>TRIM\<close> (the spaces at both ends
  removed, nothing else), and a \<open>codigo\<close> no other row has. This holds of the empty table
  and every INSERT and UPDATE keeps it. An INSERT is accepted exactly when the row it
  proposes has an id, is such a row, and repeats no id and no \<open>codigo\<close> of the table; it
  then adds that row, and otherwise leaves the rows as they were. An UPDATE that is
  accepted stores the rows it proposes; one that is refused changes nothing; and it is
  refused when a row it proposes is not such a row or, on a table that keeps the
  invariant, when the rows it proposes repeat a \<open>codigo\<close>.
\<close>

theorem tabla_mantiene_restricciones:
  "invariante_tabla bd_inicial
   \<and> (invariante_tabla db \<longrightarrow>
        invariante_tabla (snd (insertar ahora st db))
        \<and> invariante_tabla (snd (actualizar ahora u db)))
   \<and> ((fst (insertar ahora st db) = None) =
        (col_id (fila_nueva ahora st (secuencia db + 1)) \<noteq> None
         \<and> fila_valida (fila_nueva ahora st (secuencia db + 1))
         \<and> col_id (fila_nueva ahora st (secuencia db + 1)) \<notin> col_id ` set (filas db)
         \<and> col_codigo (fila_nueva ahora st (secuencia db + 1)) \<notin> col_codigo ` set (filas db)))
   \<and> filas (snd (insertar ahora st db)) =
        (if fst (insertar ahora st db) = None
         then filas db @ [fila_nueva ahora st (secuencia db + 1)]
         else filas db)
   \<and> (fst (actualizar ahora u db) = None \<longrightarrow>
        filas (snd (actualizar ahora u db)) = filas_propuestas ahora u (filas db))
   \<and> (fst (actualizar ahora u db) \<noteq> None \<longrightarrow> snd (actualizar ahora u db) = db)
   \<and> ((\<exists>r \<in> set (filas db). donde u r \<and>
          \<not> fila_valida (actualizar_fecha_modificacion ahora (aplicar_set u r))) \<longrightarrow>
        fst (actualizar ahora u db) \<noteq> None)
   \<and> (invariante_tabla db
        \<and> \<not> distinct (map col_codigo (filas_propuestas ahora u (filas db))) \<longrightarrow>
        fst (actualizar ahora u db) \<noteq> None)"
proof (intro conjI impI)
  show "invariante_tabla bd_inicial"
    by (simp add: invariante_tabla_def bd_inicial_def)
next
  assume "invariante_tabla db"
  then show "invariante_tabla (snd (insertar ahora st db))"
    and "invariante_tabla (snd (actualizar ahora u db))"
    by (rule invariante_insertar, rule invariante_actualizar)
next
  show "(fst (insertar ahora st db) = None) =
        (col_id (fila_nueva ahora st (secuencia db + 1)) \<noteq> None
         \<and> fila_valida (fila_nueva ahora st (secuencia db + 1))
         \<and> col_id (fila_nueva ahora st (secuencia db + 1)) \<notin> col_id ` set (filas db)
         \<and> col_codigo (fila_nueva ahora st (secuencia db + 1)) \<notin> col_codigo ` set (filas db))"
    by (simp only: insertar_aceptado_iff restricciones_fila_iff restricciones_unicas_iff conj_assoc)
next
  show "filas (snd (insertar ahora st db)) =
        (if fst (insertar ahora st db) = None
         then filas db @ [fila_nueva ahora st (secuencia db + 1)]
         else filas db)"
    by (rule insertar_filas)
next
  assume "fst (actualizar ahora u db) = None"
  then show "filas (snd (actualizar ahora u db)) = filas_propuestas ahora u (filas db)"
    by (rule actualizar_aceptado_propuestas)
next
  assume "fst (actualizar ahora u db) \<noteq> None"
  then show "snd (actualizar ahora u db) = db" by (rule actualizar_rechazado)
next
  assume "\<exists>r \<in> set (filas db). donde u r \<and>
          \<not> fila_valida (actualizar_fecha_modificacion ahora (aplicar_set u r))"
  then show "fst (actualizar ahora u db) \<noteq> None"
    using actualizar_fila_invalida by blast
next
  assume a: "invariante_tabla db
        \<and> \<not> distinct (map col_codigo (filas_propuestas ahora u (filas db)))"
  show "fst (actualizar ahora u db) \<noteq> None"
  proof
    assume n: "fst (actualizar ahora u db) = None"
    have "invariante_tabla (snd (actualizar ahora u db))"
      using a by (simp add: invariante_actualizar)
    then have "distinct (map col_codigo (filas_propuestas ahora u (filas db)))"
      using actualizar_aceptado_propuestas [OF n] by (simp add: invariante_tabla_def)
    then show False using a by simp
  qed
qed

lemma bd_semilla_filas:
  "filas bd_semilla =
     [\<lparr>col_id = Some 1, col_codigo = Some ''PROD002'',
       col_nombre = Some ''Mouse Logitech MX Master'',
       col_descripcion = Some ''Mouse ergonomico inalambrico'',
       col_cantidad = Some 25, col_precio = Some (9999 / 100),
       col_categoria = Some ''Accesorios'',
       col_fecha_creacion = Some 7, col_fecha_actualizacion = Some 7\<rparr>]"
  by (simp add: bd_semilla_def insertar_def fila_nueva_def insert_semilla_def bd_inicial_def
      por_defecto_def restricciones_fila_def restricciones_unicas_def check_cantidad_def
      check_precio_def check_codigo_no_vacio_def check_nombre_no_vacio_def sql_trim_def Let_def)

lemma insert_repetido_codigo:
  "col_codigo (fila_nueva 8 insert_repetido (secuencia bd_semilla + 1))
     \<in> col_codigo ` set (filas bd_semilla)"
  by (simp add: bd_semilla_filas fila_nueva_def insert_repetido_def insert_semilla_def
      por_defecto_def)

lemma update_ejemplo_aceptado: "fst (actualizar ahora update_ejemplo bd_semilla) = None"
  by (simp add: actualizar_def bd_semilla_filas update_ejemplo_def sin_asignaciones_def
      aplicar_set_def asignar_def actualizar_fecha_modificacion_def
      restricciones_fila_def restricciones_unicas_def check_cantidad_def
      check_precio_def check_codigo_no_vacio_def check_nombre_no_vacio_def sql_trim_def Let_def)

lemma update_negativo_invalido:
  "\<exists>r \<in> set (filas bd_semilla). donde update_negativo r \<and>
     \<not> fila_valida (actualizar_fecha_modificacion 8 (aplicar_set update_negativo r))"
  by (simp add: bd_semilla_filas update_negativo_def sin_asignaciones_def aplicar_set_def
      asignar_def actualizar_fecha_modificacion_def fila_valida_def)

theorem tabla_mantiene_restricciones_witness:
  "invariante_tabla bd_inicial
   \<and> invariante_tabla bd_semilla
   \<and> invariante_tabla (snd (actualizar 8 update_ejemplo bd_semilla))
   \<and> fst (insertar 8 insert_repetido bd_semilla) \<noteq> None
   \<and> filas (snd (insertar 8 insert_repetido bd_semilla)) = filas bd_semilla
   \<and> fst (actualizar 8 update_ejemplo bd_semilla) = None
   \<and> filas (snd (actualizar 8 update_ejemplo bd_semilla))
       = filas_propuestas 8 update_ejemplo (filas bd_semilla)
   \<and> fst (actualizar 8 update_negativo bd_semilla) \<noteq> None
   \<and> snd (actualizar 8 update_negativo bd_semilla) = bd_semilla"
proof -
  note t0 = tabla_mantiene_restricciones
    [of bd_inicial 7
        "insert_semilla ''PROD002'' ''Mouse Logitech MX Master''
           ''Mouse ergonomico inalambrico'' 25 (9999 / 100) ''Accesorios''"
        update_ejemplo]
  from t0 have i0: "invariante_tabla bd_inicial" by blast
  with t0 have i1: "invariante_tabla bd_semilla" unfolding bd_semilla_def by blast
  note t1 = tabla_mantiene_restricciones [of bd_semilla 8 insert_repetido update_ejemplo]
  note t2 = tabla_mantiene_restricciones [of bd_semilla 8 insert_repetido update_negativo]
  from t1 i1 have i2: "invariante_tabla (snd (actualizar 8 update_ejemplo bd_semilla))"
    by blast
  from t1 insert_repetido_codigo have r: "fst (insertar 8 insert_repetido bd_semilla) \<noteq> None"
    by blast
  with t1 have f: "filas (snd (insertar 8 insert_repetido bd_semilla)) = filas bd_semilla"
    by simp
  have a: "fst (actualizar 8 update_ejemplo bd_semilla) = None"
    by (rule update_ejemplo_aceptado)
  with t1 have p: "filas (snd (actualizar 8 update_ejemplo bd_semilla))
       = filas_propuestas 8 update_ejemplo (filas bd_semilla)"
    by blast
  from t2 update_negativo_invalido
  have n: "fst (actualizar 8 update_negativo bd_semilla) \<noteq> None"
    by blast
  with t2 have d: "snd (actualizar 8 update_negativo bd_semilla) = bd_semilla"
    by blast
  from i0 i1 i2 r f a p n d show ?thesis by blast
qed

section \<open>The trigger on UPDATE\<close>

text \<open>
  C7. On an UPDATE that is accepted, every row it updates gets the current timestamp
  in \<open>fecha_actualizacion\<close>, and is otherwise the row that the statement proposed:
  \<open>fecha_creacion\<close> and every other column that the statement does not assign keep
  their previous values. Rows that the statement does not update are unchanged.
\<close>

theorem trigger_solo_fecha_actualizacion:
  assumes "actualizar ahora u db = (None, db')"
    and "i < length (filas db)"
    and "donde u (filas db ! i)"
  shows "length (filas db') = length (filas db)
     \<and> col_fecha_actualizacion (filas db' ! i) = Some ahora
     \<and> filas db' ! i = (aplicar_set u (filas db ! i))\<lparr>col_fecha_actualizacion := Some ahora\<rparr>
     \<and> (set_fecha_creacion u = None \<longrightarrow>
          col_fecha_creacion (filas db' ! i) = col_fecha_creacion (filas db ! i))
     \<and> (set_id u = None \<longrightarrow> col_id (filas db' ! i) = col_id (filas db ! i))
     \<and> (set_codigo u = None \<longrightarrow> col_codigo (filas db' ! i) = col_codigo (filas db ! i))
     \<and> (set_nombre u = None \<longrightarrow> col_nombre (filas db' ! i) = col_nombre (filas db ! i))
     \<and> (set_descripcion u = None \<longrightarrow>
          col_descripcion (filas db' ! i) = col_descripcion (filas db ! i))
     \<and> (set_cantidad u = None \<longrightarrow> col_cantidad (filas db' ! i) = col_cantidad (filas db ! i))
     \<and> (set_precio u = None \<longrightarrow> col_precio (filas db' ! i) = col_precio (filas db ! i))
     \<and> (set_categoria u = None \<longrightarrow>
          col_categoria (filas db' ! i) = col_categoria (filas db ! i))
     \<and> (\<forall>j < length (filas db). \<not> donde u (filas db ! j) \<longrightarrow> filas db' ! j = filas db ! j)"
proof -
  note f = actualizar_aceptado [OF assms(1)]
  have r: "filas db' ! i = actualizar_fecha_modificacion ahora (aplicar_set u (filas db ! i))"
    using assms(2,3) by (simp add: f)
  have o: "\<forall>j < length (filas db). \<not> donde u (filas db ! j) \<longrightarrow> filas db' ! j = filas db ! j"
    by (simp add: f)
  have l: "length (filas db') = length (filas db)" by (simp add: f)
  show ?thesis
    using l o
    by (simp add: r actualizar_fecha_modificacion_def aplicar_set_def asignar_def)
qed

theorem trigger_solo_fecha_actualizacion_witness:
  "fst (actualizar 9 update_ejemplo bd_semilla) = None
   \<and> (0::nat) < length (filas bd_semilla)
   \<and> donde update_ejemplo (filas bd_semilla ! 0)
   \<and> col_fecha_actualizacion (filas (snd (actualizar 9 update_ejemplo bd_semilla)) ! 0) = Some 9
   \<and> col_fecha_creacion (filas (snd (actualizar 9 update_ejemplo bd_semilla)) ! 0) = Some 7
   \<and> col_codigo (filas (snd (actualizar 9 update_ejemplo bd_semilla)) ! 0) = Some ''PROD002''
   \<and> col_precio (filas (snd (actualizar 9 update_ejemplo bd_semilla)) ! 0) = Some (9999 / 100)"
proof -
  let ?db' = "snd (actualizar 9 update_ejemplo bd_semilla)"
  have a: "actualizar 9 update_ejemplo bd_semilla = (None, ?db')"
    using update_ejemplo_aceptado by (simp add: prod_eq_iff)
  have b: "(0::nat) < length (filas bd_semilla)" by (simp add: bd_semilla_filas)
  have c: "donde update_ejemplo (filas bd_semilla ! 0)"
    by (simp add: bd_semilla_filas update_ejemplo_def sin_asignaciones_def)
  have s: "set_fecha_creacion update_ejemplo = None" "set_codigo update_ejemplo = None"
    "set_precio update_ejemplo = None"
    by (simp_all add: update_ejemplo_def sin_asignaciones_def)
  note t = trigger_solo_fecha_actualizacion [OF a b c]
  from t s have
    "col_fecha_actualizacion (filas ?db' ! 0) = Some 9
     \<and> col_fecha_creacion (filas ?db' ! 0) = col_fecha_creacion (filas bd_semilla ! 0)
     \<and> col_codigo (filas ?db' ! 0) = col_codigo (filas bd_semilla ! 0)
     \<and> col_precio (filas ?db' ! 0) = col_precio (filas bd_semilla ! 0)"
    by blast
  then have "col_fecha_actualizacion (filas ?db' ! 0) = Some 9
     \<and> col_fecha_creacion (filas ?db' ! 0) = Some 7
     \<and> col_codigo (filas ?db' ! 0) = Some ''PROD002''
     \<and> col_precio (filas ?db' ! 0) = Some (9999 / 100)"
    by (simp add: bd_semilla_filas)
  with update_ejemplo_aceptado b c show ?thesis by blast
qed

end
